theory Spec2Isabelle
  imports Complex_Main "HOL-Library.Word" "HOL-Library.Multiset"
begin

section \<open>Strings and values of the host language\<close>

text \<open>
  A JavaScript string is a sequence of UTF-16 code units, and \<open>length\<close> counts code
  units. String literals of the source are written with \<open>js\<close>.
\<close>

type_synonym code_unit = "16 word"
type_synonym jsstring = "code_unit list"

definition js :: "string \<Rightarrow> jsstring" where
  "js s = map of_char s"

text \<open>
  \<open>String.prototype.trim\<close> removes WhiteSpace and LineTerminator code units from both
  ends: TAB, LF, VT, FF, CR, SPACE, NBSP, U+1680, U+2000 to U+200A, U+2028, U+2029,
  U+202F, U+205F, U+3000 and U+FEFF.
\<close>

definition is_ws :: "code_unit \<Rightarrow> bool" where
  "is_ws c \<longleftrightarrow>
     c = 0x9 \<or> c = 0xA \<or> c = 0xB \<or> c = 0xC \<or> c = 0xD \<or> c = 0x20 \<or> c = 0xA0 \<or>
     c = 0x1680 \<or> (0x2000 \<le> c \<and> c \<le> 0x200A) \<or> c = 0x2028 \<or> c = 0x2029 \<or>
     c = 0x202F \<or> c = 0x205F \<or> c = 0x3000 \<or> c = 0xFEFF"

definition trim :: "jsstring \<Rightarrow> jsstring" where
  "trim s = rev (dropWhile is_ws (rev (dropWhile is_ws s)))"

text \<open>
  Values that \<open>JSON.parse\<close> and the body parser of the framework produce. The payload of
  a number is never inspected by the code; \<open>undefined\<close> is \<open>None\<close> of \<open>json option\<close>.
  An object is the list of its own properties, each key once.
\<close>

datatype json =
    JNull
  | JBool bool
  | JNum int
  | JStr jsstring
  | JArr "json list"
  | JObj "(jsstring \<times> json) list"

text \<open>Property access \<open>v.k\<close> on a non-null value: \<open>None\<close> is \<open>undefined\<close>.\<close>

fun get_prop :: "json \<Rightarrow> jsstring \<Rightarrow> json option" where
  "get_prop (JObj kvs) k = map_of kvs k"
| "get_prop _ k = None"

text \<open>\<open>!v\<close> is false exactly on the truthy values.\<close>

fun truthy :: "json \<Rightarrow> bool" where
  "truthy JNull = False"
| "truthy (JBool b) = b"
| "truthy (JNum n) = (n \<noteq> 0)"
| "truthy (JStr s) = (s \<noteq> [])"
| "truthy (JArr _) = True"
| "truthy (JObj _) = True"

text \<open>\<open>typeof v === "object"\<close>, which holds of \<open>null\<close> and of arrays too.\<close>

fun typeof_object :: "json \<Rightarrow> bool" where
  "typeof_object JNull = True"
| "typeof_object (JArr _) = True"
| "typeof_object (JObj _) = True"
| "typeof_object _ = False"

text \<open>\<open>Array.isArray(v.k)\<close> and \<open>typeof v.k === "string"\<close>.\<close>

definition isArray_prop :: "json \<Rightarrow> jsstring \<Rightarrow> bool" where
  "isArray_prop v k = (case get_prop v k of Some (JArr _) \<Rightarrow> True | _ \<Rightarrow> False)"

definition isString_prop :: "json \<Rightarrow> jsstring \<Rightarrow> bool" where
  "isString_prop v k = (case get_prop v k of Some (JStr _) \<Rightarrow> True | _ \<Rightarrow> False)"

text \<open>
  A thrown value. \<open>ThrownObj e c m\<close> is an object: \<open>e\<close> tells whether it is an instance
  of \<open>Error\<close>, \<open>c\<close> is its \<open>code\<close> property (\<open>None\<close> when it has none; a code that is not
  a string compares unequal to every case label, as an unlisted string does) and \<open>m\<close>
  its \<open>message\<close>. \<open>ThrownPrim\<close> is a thrown primitive.
\<close>

datatype thrown =
    ThrownObj (instanceof_Error: bool) (code: "jsstring option") (message: "jsstring option")
  | ThrownPrim

definition new_Error :: "jsstring \<Rightarrow> thrown" where
  "new_Error m = ThrownObj True None (Some m)"

text \<open>\<open>err instanceof Error ? err.message : dflt\<close>\<close>

fun message_or :: "thrown \<Rightarrow> jsstring \<Rightarrow> jsstring" where
  "message_or (ThrownObj True c m) dflt = (case m of Some s \<Rightarrow> s | None \<Rightarrow> [])"
| "message_or _ dflt = dflt"

text \<open>What a run does to the outside, in order.\<close>

record api_request =
  model :: string
  max_tokens :: nat
  temperature :: rat
  user_content :: jsstring

datatype event =
    Log string
  | ApiCall api_request
  | DbFindUnique jsstring
  | DbDelete jsstring
  | DbFindMany
  | DbCreate jsstring json json json

section \<open>The analysis requester (src/lib/anthropic.ts)\<close>

datatype block = TextBlock (block_text: jsstring) | OtherBlock

datatype api_outcome = ApiThrows thrown | ApiReturns "block list"

fun is_text :: "block \<Rightarrow> bool" where
  "is_text (TextBlock _) = True"
| "is_text OtherBlock = False"

definition prompt_head :: jsstring where
  \<open>prompt_head = js (''You are a meeting analysis assistant. You must return ONLY valid JSON, with no explanation, code fences, or extra text. You are to analyze the following meeting transcript and provide a summary on the following topics: Action items with owners/deadlines, Key decisions that were made, Overall meeting sentiment/tone. return:\<newline>\<newline>{\<newline>  "action_items": [{ "owner": "string", "task": "string", "deadline": "string | null" }],\<newline>  "decisions": ["string"],\<newline>  "sentiment": "string"\<newline>}\<newline>Transcript:\<newline>'')\<close>

definition prompt_tail :: jsstring where
  \<open>prompt_tail = js ''\<newline>\<newline>Remember: respond with **only** JSON, nothing else.''\<close>

definition request_for :: "jsstring \<Rightarrow> api_request" where
  "request_for text =
     \<lparr>model = ''claude-3-5-haiku-latest'', max_tokens = 800, temperature = 2 / 10,
      user_content = prompt_head @ text @ prompt_tail\<rparr>"

text \<open>
  The regular expression \<open>/\{[\s\S]*\}/\<close>. \<open>star_then_close\<close> is \<open>[\s\S]*\}\<close> on the
  rest of the input: the star first takes the next code unit and goes on, and only when
  that fails does it stop and let \<open>\}\<close> match here. \<open>match_at\<close> is an attempt at one
  start position and \<open>match_braces\<close> tries the positions from the left, as
  \<open>String.prototype.match\<close> without the global flag does.
\<close>

definition lbrace :: code_unit where "lbrace = 0x7B"
definition rbrace :: code_unit where "rbrace = 0x7D"

fun star_then_close :: "jsstring \<Rightarrow> jsstring option" where
  "star_then_close [] = None"
| "star_then_close (c # cs) =
     (case star_then_close cs of
        Some m \<Rightarrow> Some (c # m)
      | None \<Rightarrow> if c = rbrace then Some [c] else None)"

fun match_at :: "jsstring \<Rightarrow> jsstring option" where
  "match_at [] = None"
| "match_at (c # cs) =
     (if c = lbrace then map_option (Cons c) (star_then_close cs) else None)"

fun match_braces :: "jsstring \<Rightarrow> jsstring option" where
  "match_braces [] = None"
| "match_braces (c # cs) =
     (case match_at (c # cs) of Some m \<Rightarrow> Some m | None \<Rightarrow> match_braces cs)"

text \<open>
  \<open>s.replace(/pat/g, "")\<close> for a literal pattern: the occurrences are found from the
  left and do not overlap.
\<close>

function remove_all :: "jsstring \<Rightarrow> jsstring \<Rightarrow> jsstring" where
  "remove_all pat s =
     (if s = [] then []
      else if pat \<noteq> [] \<and> take (length pat) s = pat
        then remove_all pat (drop (length pat) s)
      else hd s # remove_all pat (tl s))"
  by pat_completeness auto
termination
  by (relation "measure (\<lambda>(pat, s). length s)") auto

declare remove_all.simps [simp del]

definition fence_json :: jsstring where "fence_json = js ''```json''"
definition fence :: jsstring where "fence = js ''```''"

definition strip_fences :: "jsstring \<Rightarrow> jsstring" where
  "strip_fences m = trim (remove_all fence (remove_all fence_json m))"

text \<open>The shape test of \<open>analyzeMeeting\<close> on the parsed value.\<close>

definition shape_ok :: "json \<Rightarrow> bool" where
  "shape_ok parsed \<longleftrightarrow>
     \<not> (\<not> truthy parsed \<or> \<not> typeof_object parsed \<or>
        \<not> isArray_prop parsed (js ''action_items'') \<or>
        \<not> isArray_prop parsed (js ''decisions'') \<or>
        \<not> isString_prop parsed (js ''sentiment''))"

text \<open>
  The inner \<open>try\<close> block: \<open>JSON.parse\<close> (a parameter: \<open>None\<close> is its SyntaxError) and
  the shape test. Both failures end in the inner \<open>catch\<close>, which logs and throws one
  and the same error.
\<close>

definition parse_checked ::
  "(jsstring \<Rightarrow> json option) \<Rightarrow> jsstring \<Rightarrow> event list \<times> (thrown + json)" where
  "parse_checked json_parse jsonText =
     (case json_parse jsonText of
        None \<Rightarrow>
          ([Log ''JSON parse error:'', Log ''Raw text from Claude:''],
           Inl (new_Error (js ''Failed to parse Claude response as valid JSON.'')))
      | Some parsed \<Rightarrow>
          if \<not> shape_ok parsed then
            ([Log ''Parsed JSON missing expected structure:'',
              Log ''JSON parse error:'', Log ''Raw text from Claude:''],
             Inl (new_Error (js ''Failed to parse Claude response as valid JSON.'')))
          else ([], Inr parsed))"

text \<open>From the text of the reply to the parsed value (lines 50 to 88).\<close>

definition extract_json ::
  "(jsstring \<Rightarrow> json option) \<Rightarrow> jsstring \<Rightarrow> event list \<times> (thrown + json)" where
  "extract_json json_parse raw =
     (let jsonText = trim raw in
      case match_braces jsonText of
        None \<Rightarrow>
          ([Log ''Claude returned non-JSON response:''],
           Inl (new_Error (js ''Claude returned invalid JSON format.'')))
      | Some m \<Rightarrow> parse_checked json_parse (strip_fences m))"

text \<open>The outer \<open>try\<close> block, before its \<open>catch\<close>.\<close>

definition analyzeMeeting_try ::
  "(jsstring \<Rightarrow> json option) \<Rightarrow> (api_request \<Rightarrow> api_outcome) \<Rightarrow> jsstring
     \<Rightarrow> event list \<times> (thrown + json)" where
  "analyzeMeeting_try json_parse llm text =
     (if text = [] \<or> length (trim text) < 10 then
        ([], Inl (new_Error
           (js ''Invalid transcript: must be a non-empty string of at least 10 characters.'')))
      else
        case llm (request_for text) of
          ApiThrows e \<Rightarrow> ([ApiCall (request_for text)], Inl e)
        | ApiReturns content \<Rightarrow>
            (case find is_text content of
               None \<Rightarrow>
                 ([ApiCall (request_for text)],
                  Inl (new_Error (js ''No text content returned from Anthropic API'')))
             | Some textBlock \<Rightarrow>
                 (case extract_json json_parse (block_text textBlock) of
                    (evs, r) \<Rightarrow> (ApiCall (request_for text) # evs, r))))"

text \<open>
  \<open>analyzeMeeting\<close>: whatever the body throws is logged and thrown again as a new
  \<open>Error\<close> whose message starts with \<open>Anthropic API error: \<close>.
\<close>

definition analyzeMeeting ::
  "(jsstring \<Rightarrow> json option) \<Rightarrow> (api_request \<Rightarrow> api_outcome) \<Rightarrow> jsstring
     \<Rightarrow> event list \<times> (thrown + json)" where
  "analyzeMeeting json_parse llm text =
     (case analyzeMeeting_try json_parse llm text of
        (evs, Inl err) \<Rightarrow>
          (evs @ [Log ''Anthropic API call failed:''],
           Inl (new_Error (js ''Anthropic API error: '' @
                  message_or err (js ''Unknown error communicating with Anthropic API.''))))
      | (evs, Inr parsed) \<Rightarrow> (evs, Inr parsed))"

section \<open>The schema validator (types/analysis)\<close>

text \<open>
  The library's \<open>safeParse\<close> returns a result and does not throw. An issue carries
  either a message the schema gives or the library's own text for a value of the wrong
  type (\<open>InvalidType\<close>; that text is the library's, a missing key is reported so too).
  \<open>flattened\<close> is the result of \<open>error.flatten()\<close>.
\<close>

datatype issue_msg = Custom string | InvalidType

record flattened =
  formErrors :: "issue_msg list"
  fieldErrors :: "(string \<times> issue_msg list) list"

text \<open>
  \<open>AnalyzeRequestSchema.safeParse\<close>: an object whose \<open>transcript\<close> is a string of
  10 to 5000 code units. Other keys are dropped, so the data is the transcript.
\<close>

definition AnalyzeRequestSchema_safeParse :: "json \<Rightarrow> flattened + jsstring" where
  "AnalyzeRequestSchema_safeParse v =
     (case v of
        JObj kvs \<Rightarrow>
          (case map_of kvs (js ''transcript'') of
             Some (JStr t) \<Rightarrow>
               if length t < 10 then
                 Inl \<lparr>formErrors = [], fieldErrors =
                   [(''transcript'', [Custom ''Transcript must be at least 10 characters long''])]\<rparr>
               else if length t > 5000 then
                 Inl \<lparr>formErrors = [], fieldErrors =
                   [(''transcript'', [Custom ''Transcript cannot exceed 5000 characters''])]\<rparr>
               else Inr t
           | _ \<Rightarrow> Inl \<lparr>formErrors = [], fieldErrors = [(''transcript'', [InvalidType])]\<rparr>)
      | _ \<Rightarrow> Inl \<lparr>formErrors = [InvalidType], fieldErrors = []\<rparr>)"

record action_item =
  owner :: jsstring
  task :: jsstring
  deadline :: "jsstring option"

record analysis_result =
  action_items :: "action_item list"
  decisions :: "jsstring list"
  sentiment :: jsstring

fun as_string :: "json option \<Rightarrow> jsstring option" where
  "as_string (Some (JStr s)) = Some s"
| "as_string _ = None"

text \<open>\<open>z.string().nullable()\<close>: a string or \<open>null\<close>; the key must be there.\<close>

fun as_nullable_string :: "json option \<Rightarrow> jsstring option option" where
  "as_nullable_string (Some (JStr s)) = Some (Some s)"
| "as_nullable_string (Some JNull) = Some None"
| "as_nullable_string _ = None"

fun parse_action_item :: "json \<Rightarrow> action_item option" where
  "parse_action_item (JObj kvs) =
     (case (as_string (map_of kvs (js ''owner'')), as_string (map_of kvs (js ''task'')),
            as_nullable_string (map_of kvs (js ''deadline''))) of
        (Some ow, Some ta, Some dl) \<Rightarrow> Some \<lparr>owner = ow, task = ta, deadline = dl\<rparr>
      | _ \<Rightarrow> None)"
| "parse_action_item _ = None"

fun parse_all :: "(json \<Rightarrow> 'a option) \<Rightarrow> json option \<Rightarrow> 'a list option" where
  "parse_all f (Some (JArr xs)) = those (map f xs)"
| "parse_all f _ = None"

text \<open>
  \<open>AnalysisResultSchema.safeParse\<close>; \<open>None\<close> is the failed result, whose error is
  only ever printed.
\<close>

definition AnalysisResultSchema_safeParse :: "json option \<Rightarrow> analysis_result option" where
  "AnalysisResultSchema_safeParse d =
     (case d of
        Some (JObj kvs) \<Rightarrow>
          (case (parse_all parse_action_item (map_of kvs (js ''action_items'')),
                 parse_all (\<lambda>x. as_string (Some x)) (map_of kvs (js ''decisions'')),
                 as_string (map_of kvs (js ''sentiment''))) of
             (Some ais, Some ds, Some se) \<Rightarrow>
               Some \<lparr>action_items = ais, decisions = ds, sentiment = se\<rparr>
           | _ \<Rightarrow> None)
      | _ \<Rightarrow> None)"

text \<open>
  \<open>safeParseAnalysis\<close>: the outcome of a call is what it did and either the value it
  returned or the value it threw.
\<close>

definition safeParseAnalysis ::
  "json option \<Rightarrow> event list \<times> (thrown + analysis_result option)" where
  "safeParseAnalysis d =
     (case AnalysisResultSchema_safeParse d of
        None \<Rightarrow> ([Log ''Invalid analysis structure:''], Inr None)
      | Some r \<Rightarrow> ([], Inr (Some r)))"

section \<open>The store\<close>

text \<open>
  Modelled from the spec: the database schema and the generated client are not among
  the sources. The store holds Transcript rows (identifier, text, creation time) and
  Analysis rows (identifier, owning transcript, action items, decisions, sentiment
  string, creation time); an Analysis is deleted by identifier and its Transcript stays.
  What the handlers cannot decide is an input of the run (\<open>db_env\<close>): whether an
  operation fails and with what, the identifiers of new rows, and the time.
\<close>

record transcript_row =
  t_id :: jsstring
  t_text :: jsstring
  t_createdAt :: nat

record analysis_row =
  a_id :: jsstring
  a_transcriptId :: jsstring
  a_actionItems :: json
  a_decisions :: json
  a_sentiment :: jsstring
  a_createdAt :: nat

record store =
  transcripts :: "transcript_row list"
  analyses :: "analysis_row list"

datatype db_op = OpFindUnique | OpDelete | OpFindMany | OpCreate

record db_env =
  fault :: "db_op \<Rightarrow> thrown option"
  fresh_transcript_id :: jsstring
  fresh_analysis_id :: jsstring
  now :: nat

definition validation_error :: thrown where
  "validation_error = ThrownObj True None (Some (js ''Invalid invocation''))"

definition record_not_found :: thrown where
  "record_not_found = ThrownObj True (Some (js ''P2025'')) (Some (js ''Record not found''))"

definition analysis_findUnique ::
  "db_env \<Rightarrow> store \<Rightarrow> jsstring \<Rightarrow> thrown + analysis_row option" where
  "analysis_findUnique env st i =
     (case fault env OpFindUnique of
        Some e \<Rightarrow> Inl e
      | None \<Rightarrow> Inr (find (\<lambda>a. a_id a = i) (analyses st)))"

definition analysis_delete :: "db_env \<Rightarrow> store \<Rightarrow> jsstring \<Rightarrow> thrown + store" where
  "analysis_delete env st i =
     (case fault env OpDelete of
        Some e \<Rightarrow> Inl e
      | None \<Rightarrow>
          if \<not> (\<exists>a \<in> set (analyses st). a_id a = i) then Inl record_not_found
          else Inr (st\<lparr>analyses := filter (\<lambda>a. a_id a \<noteq> i) (analyses st)\<rparr>))"

text \<open>\<open>include: { transcript: true }\<close> and \<open>orderBy: { createdAt: "desc" }\<close>.\<close>

definition with_transcript :: "store \<Rightarrow> analysis_row \<Rightarrow> analysis_row \<times> transcript_row option" where
  "with_transcript st a = (a, find (\<lambda>t. t_id t = a_transcriptId a) (transcripts st))"

definition analysis_findMany ::
  "db_env \<Rightarrow> store \<Rightarrow> thrown + (analysis_row \<times> transcript_row option) list" where
  "analysis_findMany env st =
     (case fault env OpFindMany of
        Some e \<Rightarrow> Inl e
      | None \<Rightarrow>
          Inr (map (with_transcript st)
                 (sort_key (\<lambda>a. - int (a_createdAt a)) (analyses st))))"

text \<open>
  The nested create of a Transcript with its Analysis: both rows or neither. The
  arguments are the values of the expressions of the source, so \<open>None\<close> is \<open>undefined\<close>.
\<close>

definition transcript_create ::
  "db_env \<Rightarrow> store \<Rightarrow> jsstring \<Rightarrow> json option \<Rightarrow> json option \<Rightarrow> json
     \<Rightarrow> thrown + ((transcript_row \<times> analysis_row) \<times> store)" where
  "transcript_create env st text actionItems decs sent =
     (case fault env OpCreate of
        Some e \<Rightarrow> Inl e
      | None \<Rightarrow>
          (case (actionItems, decs, sent) of
             (Some ai, Some ds, JStr se) \<Rightarrow>
               (let t = \<lparr>t_id = fresh_transcript_id env, t_text = text, t_createdAt = now env\<rparr>;
                    a = \<lparr>a_id = fresh_analysis_id env, a_transcriptId = fresh_transcript_id env,
                         a_actionItems = ai, a_decisions = ds, a_sentiment = se,
                         a_createdAt = now env\<rparr>
                in Inr ((t, a),
                        st\<lparr>transcripts := transcripts st @ [t], analyses := analyses st @ [a]\<rparr>))
           | _ \<Rightarrow> Inl validation_error))"

section \<open>The request handlers (pages/api)\<close>

datatype details = Text jsstring | Flat flattened

datatype response_body =
    ErrorBody string "details option"
  | MessageBody string
  | Analyses "(analysis_row \<times> transcript_row option) list"
  | Saved transcript_row analysis_row

text \<open>
  What a handler run leaves behind: the response (status, \<open>Allow\<close> header when set,
  JSON body), the events in order, and the store.
\<close>

record outcome =
  status :: nat
  allow :: "string list"
  body :: response_body
  events :: "event list"
  store_after :: store

definition respond :: "nat \<Rightarrow> response_body \<Rightarrow> event list \<Rightarrow> store \<Rightarrow> outcome" where
  "respond n b evs st = \<lparr>status = n, allow = [], body = b, events = evs, store_after = st\<rparr>"

text \<open>\<open>typeof err === "object" && err !== null && "code" in err\<close>, with the code.\<close>

fun code_in :: "thrown \<Rightarrow> jsstring option" where
  "code_in (ThrownObj e (Some c) m) = Some c"
| "code_in _ = None"

subsection \<open>DELETE /api/deleteanalysis\<close>

datatype query_value = QMissing | QString jsstring | QArray "jsstring list"

definition delete_catch :: "thrown \<Rightarrow> event list \<Rightarrow> store \<Rightarrow> outcome" where
  "delete_catch err evs st =
     (case code_in err of
        Some c \<Rightarrow>
          if c = js ''P2025'' then
            respond 404 (ErrorBody ''Analysis not found (already deleted).'' None) evs st
          else if c = js ''P1001'' then
            respond 503 (ErrorBody ''Cannot reach the database. Please try again later.'' None)
              evs st
          else
            respond 500
              (ErrorBody ''Database error occurred while deleting analysis.''
                 (Some (Text (case message err of Some m \<Rightarrow> m
                              | None \<Rightarrow> js ''Unknown Prisma error''))))
              (evs @ [Log ''Prisma error:'']) st
      | None \<Rightarrow>
          respond 500
            (ErrorBody ''Unexpected server error while deleting analysis.''
               (Some (Text (message_or err (js ''Unknown server error.'')))))
            (evs @ [Log ''Unexpected error during DELETE /api/delete-analysis:'']) st)"

definition handler_delete :: "db_env \<Rightarrow> store \<Rightarrow> string \<Rightarrow> query_value \<Rightarrow> outcome" where
  "handler_delete env st method idq =
     (if method \<noteq> ''DELETE'' then
        (respond 405 (ErrorBody ''Method not allowed. Use DELETE instead.'' None) [] st)
          \<lparr>allow := [''DELETE'']\<rparr>
      else
        case idq of
          QString i \<Rightarrow>
            if i = [] \<or> length (trim i) = 0 then
              respond 400 (ErrorBody ''Invalid or missing analysis ID.'' None) [] st
            else
              (case analysis_findUnique env st i of
                 Inl err \<Rightarrow> delete_catch err [DbFindUnique i] st
               | Inr None \<Rightarrow>
                   respond 404
                     (ErrorBody ''Analysis not found. It may have already been deleted.'' None)
                     [DbFindUnique i] st
               | Inr (Some existing) \<Rightarrow>
                   (case analysis_delete env st i of
                      Inl err \<Rightarrow> delete_catch err [DbFindUnique i, DbDelete i] st
                    | Inr st' \<Rightarrow>
                        respond 200 (MessageBody ''Analysis deleted successfully.'')
                          [DbFindUnique i, DbDelete i] st'))
        | _ \<Rightarrow> respond 400 (ErrorBody ''Invalid or missing analysis ID.'' None) [] st)"

subsection \<open>GET /api/fetchanalysis\<close>

definition fetch_catch :: "thrown \<Rightarrow> event list \<Rightarrow> store \<Rightarrow> outcome" where
  "fetch_catch err evs st =
     (if code_in err = Some (js ''P1001'') then
        respond 503 (ErrorBody ''Database connection error.'' None)
          (evs @ [Log ''Error fetching analyses:'']) st
      else
        respond 500
          (ErrorBody ''Failed to fetch past analyses.''
             (Some (Text (message_or err (js ''Unknown error occurred.'')))))
          (evs @ [Log ''Error fetching analyses:'']) st)"

definition handler_fetch :: "db_env \<Rightarrow> store \<Rightarrow> string \<Rightarrow> outcome" where
  "handler_fetch env st method =
     (if method \<noteq> ''GET'' then
        (respond 405 (ErrorBody ''Method not allowed. Only GET is supported.'' None) [] st)
          \<lparr>allow := [''GET'']\<rparr>
      else
        case analysis_findMany env st of
          Inl err \<Rightarrow> fetch_catch err [DbFindMany] st
        | Inr found \<Rightarrow>
            if length found = 0 then
              respond 404 (ErrorBody ''No analyses found.'' None) [DbFindMany] st
            else respond 200 (Analyses found) [DbFindMany] st)"

subsection \<open>POST /api/analyze\<close>

text \<open>
  The handler's own test of the value \<open>analyzeMeeting\<close> returned, and the value of
  \<open>analysis.sentiment ?? "Unknown"\<close>.
\<close>

definition format_ok :: "json \<Rightarrow> bool" where
  "format_ok analysis \<longleftrightarrow>
     \<not> (\<not> truthy analysis \<or> \<not> typeof_object analysis \<or>
        \<not> isArray_prop analysis (js ''action_items'') \<or>
        \<not> isArray_prop analysis (js ''decisions''))"

definition sentiment_or_Unknown :: "json \<Rightarrow> json" where
  "sentiment_or_Unknown analysis =
     (case get_prop analysis (js ''sentiment'') of
        None \<Rightarrow> JStr (js ''Unknown'')
      | Some JNull \<Rightarrow> JStr (js ''Unknown'')
      | Some v \<Rightarrow> v)"

text \<open>
  The arguments of \<open>prisma.transcript.create\<close>, as the event of the call records them.
\<close>

definition create_event :: "jsstring \<Rightarrow> json \<Rightarrow> event" where
  "create_event transcript analysis =
     DbCreate transcript
       (case get_prop analysis (js ''action_items'') of Some v \<Rightarrow> v | None \<Rightarrow> JNull)
       (case get_prop analysis (js ''decisions'') of Some v \<Rightarrow> v | None \<Rightarrow> JNull)
       (sentiment_or_Unknown analysis)"

text \<open>From the value \<open>analyzeMeeting\<close> returned to the response (lines 178 to 218).\<close>

definition save_analysis ::
  "db_env \<Rightarrow> store \<Rightarrow> jsstring \<Rightarrow> event list \<Rightarrow> json \<Rightarrow> outcome" where
  "save_analysis env st transcript evs analysis =
     (if \<not> format_ok analysis then
        respond 500 (ErrorBody ''AI returned unexpected data format.'' None)
          (evs @ [Log ''Invalid AI analysis format:'']) st
      else
        case transcript_create env st transcript
               (get_prop analysis (js ''action_items''))
               (get_prop analysis (js ''decisions''))
               (sentiment_or_Unknown analysis) of
          Inl dbErr \<Rightarrow>
            respond 500
              (ErrorBody ''Failed to save analysis results to database.''
                 (Some (Text (message_or dbErr (js ''Database error'')))))
              (evs @ [create_event transcript analysis, Log ''Database save failed:'']) st
        | Inr ((t, a), st') \<Rightarrow>
            respond 200 (Saved t a)
              (evs @ [create_event transcript analysis,
                      Log ''Successfully saved transcript and analysis:'']) st')"

text \<open>
  The handler. \<open>req.body\<close> is \<open>None\<close> when there is none. The outermost \<open>catch\<close> of
  the source has nothing to catch here: every operation that can throw has a handler
  of its own.
\<close>

definition handler_analyze ::
  "(jsstring \<Rightarrow> json option) \<Rightarrow> (api_request \<Rightarrow> api_outcome) \<Rightarrow> db_env \<Rightarrow> store
     \<Rightarrow> string \<Rightarrow> json option \<Rightarrow> outcome" where
  "handler_analyze json_parse llm env st method req_body =
     (if method \<noteq> ''POST'' then
        (respond 405 (ErrorBody ''Method not allowed. Use POST instead.'' None) [] st)
          \<lparr>allow := [''POST'']\<rparr>
      else
        case req_body of
          None \<Rightarrow>
            respond 400 (ErrorBody ''Invalid or empty request body. Expected JSON.'' None) [] st
        | Some b \<Rightarrow>
            if \<not> truthy b \<or> \<not> typeof_object b then
              respond 400 (ErrorBody ''Invalid or empty request body. Expected JSON.'' None)
                [] st
            else
              (case AnalyzeRequestSchema_safeParse b of
                 Inl flat \<Rightarrow>
                   respond 400 (ErrorBody ''Invalid request body structure.'' (Some (Flat flat)))
                     [] st
               | Inr transcript \<Rightarrow>
                   if length (trim transcript) < 10 then
                     respond 400
                       (ErrorBody
                          ''Transcript must be a non-empty string with at least 10 characters.''
                          None) [] st
                   else if length transcript > 5000 then
                     respond 400
                       (ErrorBody ''Transcript too long. Maximum allowed is 5000 characters.''
                          None) [] st
                   else
                     (case analyzeMeeting json_parse llm transcript of
                        (evs, Inl err) \<Rightarrow>
                          respond 500
                            (ErrorBody ''AI analysis failed.''
                               (Some (Text (message_or err (js ''Unknown AI error.'')))))
                            (evs @ [Log ''AI analysis failed:'']) st
                      | (evs, Inr analysis) \<Rightarrow>
                          save_analysis env st transcript evs analysis)))"

section \<open>Sample inputs\<close>

text \<open>Concrete inputs on which the theorems below are instantiated.\<close>

definition quiet_env :: db_env where
  "quiet_env = \<lparr>fault = (\<lambda>_. None), fresh_transcript_id = js ''t9'',
                 fresh_analysis_id = js ''a9'', now = 9\<rparr>"

definition empty_store :: store where
  "empty_store = \<lparr>transcripts = [], analyses = []\<rparr>"

definition sample_object_text :: jsstring where
  \<open>sample_object_text = js ''{"action_items":[],"decisions":[],"sentiment":"ok"}''\<close>

definition sample_object :: json where
  "sample_object =
     JObj [(js ''action_items'', JArr []), (js ''decisions'', JArr []),
           (js ''sentiment'', JStr (js ''ok''))]"

text \<open>\<open>JSON.parse\<close> as far as the samples need it: one text parses, every other fails.\<close>

definition sample_parse :: "jsstring \<Rightarrow> json option" where
  "sample_parse s = (if s = sample_object_text then Some sample_object else None)"

definition api_down :: "api_request \<Rightarrow> api_outcome" where
  "api_down r = ApiThrows (new_Error (js ''Connection error.''))"

definition short_body :: json where
  "short_body = JObj [(js ''transcript'', JStr (js ''too short''))]"

definition padded_transcript :: jsstring where
  "padded_transcript = js ''    hello    ''"

definition padded_body :: json where
  "padded_body = JObj [(js ''transcript'', JStr padded_transcript)]"

definition good_transcript :: jsstring where
  "good_transcript = js ''Alice: ship by Friday. Bob: agreed.''"

definition good_body :: json where
  "good_body = JObj [(js ''transcript'', JStr good_transcript)]"

definition long_text :: jsstring where
  "long_text = replicate 5001 0x61"

definition backtick :: code_unit where "backtick = 0x60"

definition sample_inner :: jsstring where
  \<open>sample_inner = js ''"action_items":[],"decisions":[],"sentiment":"ok"''\<close>

definition fenced_reply :: jsstring where
  "fenced_reply = js ''Here it is: ```json\<newline>'' @ sample_object_text @ js ''\<newline>```''"

definition api_fenced :: "api_request \<Rightarrow> api_outcome" where
  "api_fenced r = ApiReturns [OtherBlock, TextBlock fenced_reply]"

definition chatty_reply :: jsstring where
  "chatty_reply = sample_object_text @ js '' Edit the {owner} fields as needed.''"

definition api_chatty :: "api_request \<Rightarrow> api_outcome" where
  "api_chatty r = ApiReturns [TextBlock chatty_reply]"

definition plain_reply :: jsstring where
  "plain_reply = js ''I cannot analyze this transcript.''"

definition api_plain :: "api_request \<Rightarrow> api_outcome" where
  "api_plain r = ApiReturns [TextBlock plain_reply]"

definition row_t1 :: transcript_row where
  "row_t1 = \<lparr>t_id = js ''t1'', t_text = good_transcript, t_createdAt = 1\<rparr>"

definition row_t2 :: transcript_row where
  "row_t2 = \<lparr>t_id = js ''t2'', t_text = good_transcript, t_createdAt = 2\<rparr>"

definition row_a1 :: analysis_row where
  "row_a1 = \<lparr>a_id = js ''a1'', a_transcriptId = js ''t1'', a_actionItems = JArr [],
              a_decisions = JArr [], a_sentiment = js ''ok'', a_createdAt = 1\<rparr>"

definition row_a2 :: analysis_row where
  "row_a2 = \<lparr>a_id = js ''a2'', a_transcriptId = js ''t2'', a_actionItems = JArr [],
              a_decisions = JArr [], a_sentiment = js ''tense'', a_createdAt = 2\<rparr>"

definition two_store :: store where
  "two_store = \<lparr>transcripts = [row_t1, row_t2], analyses = [row_a1, row_a2]\<rparr>"

definition connection_error :: thrown where
  "connection_error =
     ThrownObj True (Some (js ''P1001'')) (Some (js ''Cannot reach database server''))"

definition unreachable_env :: db_env where
  "unreachable_env = \<lparr>fault = (\<lambda>_. Some connection_error), fresh_transcript_id = js ''t9'',
                       fresh_analysis_id = js ''a9'', now = 9\<rparr>"

definition bare_object :: json where
  "bare_object = JObj [(js ''action_items'', JArr []), (js ''decisions'', JArr [])]"

definition rich_object :: json where
  "rich_object =
     JObj [(js ''action_items'',
              JArr [JObj [(js ''owner'', JStr (js ''Bob'')), (js ''task'', JStr (js ''ship'')),
                          (js ''deadline'', JNull)]]),
           (js ''decisions'', JArr [JStr (js ''ship by Friday'')]),
           (js ''sentiment'', JStr (js ''positive''))]"

section \<open>Facts about trimming\<close>

lemma length_trim_le: "length (trim s) \<le> length s"
proof -
  have "length (dropWhile is_ws (rev (dropWhile is_ws s))) \<le> length (rev (dropWhile is_ws s))"
    by (rule length_dropWhile_le)
  also have "\<dots> \<le> length s"
    by (simp add: length_dropWhile_le)
  finally show ?thesis by (simp add: trim_def)
qed

lemma trim_Nil: "trim [] = []"
  by (simp add: trim_def)

lemma trim_all_ws: "\<forall>c \<in> set s. is_ws c \<Longrightarrow> trim s = []"
  by (auto simp add: trim_def dest: set_dropWhileD)

lemma trim_id: "s \<noteq> [] \<Longrightarrow> \<not> is_ws (hd s) \<Longrightarrow> \<not> is_ws (last s) \<Longrightarrow> trim s = s"
proof -
  assume ne: "s \<noteq> []" and h: "\<not> is_ws (hd s)" and l: "\<not> is_ws (last s)"
  from ne h have a: "dropWhile is_ws s = s"
    by (cases s) simp_all
  from ne l have "dropWhile is_ws (rev s) = rev s"
    by (cases "rev s") (simp_all add: last_rev hd_rev)
  with a show ?thesis by (simp add: trim_def)
qed

section \<open>Analyze: rejected transcripts\<close>

text \<open>
  C1. A POST whose body is an object with a transcript string shorter than 10 or longer
  than 5000 code units is answered with status 400, the body carrying the flattened
  field errors of the schema; the run has no event at all (no model call, no store
  operation) and leaves the store as it was.
\<close>

theorem analyze_rejects_out_of_bounds:
  assumes "map_of kvs (js ''transcript'') = Some (JStr t)"
    and "length t < 10 \<or> length t > 5000"
  shows "status (handler_analyze json_parse llm env st ''POST'' (Some (JObj kvs))) = 400
    \<and> body (handler_analyze json_parse llm env st ''POST'' (Some (JObj kvs))) =
        ErrorBody ''Invalid request body structure.''
          (Some (Flat \<lparr>formErrors = [], fieldErrors =
            [(''transcript'',
              [Custom (if length t < 10 then ''Transcript must be at least 10 characters long''
                       else ''Transcript cannot exceed 5000 characters'')])]\<rparr>))
    \<and> events (handler_analyze json_parse llm env st ''POST'' (Some (JObj kvs))) = []
    \<and> store_after (handler_analyze json_parse llm env st ''POST'' (Some (JObj kvs))) = st"
  using assms
  by (auto simp add: handler_analyze_def AnalyzeRequestSchema_safeParse_def respond_def)

theorem analyze_rejects_out_of_bounds_witness:
  "status (handler_analyze sample_parse api_down quiet_env empty_store ''POST''
     (Some short_body)) = 400
   \<and> events (handler_analyze sample_parse api_down quiet_env empty_store ''POST''
     (Some short_body)) = []
   \<and> store_after (handler_analyze sample_parse api_down quiet_env empty_store ''POST''
     (Some short_body)) = empty_store"
  using analyze_rejects_out_of_bounds
    [of "[(js ''transcript'', JStr (js ''too short''))]" "js ''too short''"
        sample_parse api_down quiet_env empty_store]
  by (simp add: js_def short_body_def)

text \<open>
  C9. A transcript whose length is within 10 to 5000 but whose trimmed length is below
  10 is rejected with status 400 by the handler's own test, before any call.
\<close>

theorem analyze_rejects_padded:
  assumes "map_of kvs (js ''transcript'') = Some (JStr t)"
    and "10 \<le> length t" and "length t \<le> 5000"
    and "length (trim t) < 10"
  shows "status (handler_analyze json_parse llm env st ''POST'' (Some (JObj kvs))) = 400
    \<and> body (handler_analyze json_parse llm env st ''POST'' (Some (JObj kvs))) =
        ErrorBody ''Transcript must be a non-empty string with at least 10 characters.'' None
    \<and> events (handler_analyze json_parse llm env st ''POST'' (Some (JObj kvs))) = []
    \<and> store_after (handler_analyze json_parse llm env st ''POST'' (Some (JObj kvs))) = st"
  using assms
  by (auto simp add: handler_analyze_def AnalyzeRequestSchema_safeParse_def respond_def)

theorem analyze_rejects_padded_witness:
  "10 \<le> length padded_transcript \<and> length padded_transcript \<le> 5000
   \<and> length (trim padded_transcript) < 10
   \<and> status (handler_analyze sample_parse api_down quiet_env empty_store ''POST''
        (Some padded_body)) = 400"
proof -
  have l: "length padded_transcript = 13"
    by (simp add: padded_transcript_def js_def)
  have t: "trim padded_transcript = js ''hello''"
    by (simp add: padded_transcript_def js_def trim_def is_ws_def)
  have m: "map_of [(js ''transcript'', JStr padded_transcript)] (js ''transcript'')
             = Some (JStr padded_transcript)"
    by simp
  have s: "length (trim padded_transcript) < 10"
    by (simp add: t js_def)
  from analyze_rejects_padded [OF m _ _ s, of sample_parse api_down quiet_env empty_store] l s
  show ?thesis by (simp add: padded_body_def)
qed

section \<open>The analysis requester: its own test of the input\<close>

lemma analyzeMeeting_short:
  "length (trim text) < 10 \<Longrightarrow>
   analyzeMeeting json_parse llm text =
     ([Log ''Anthropic API call failed:''],
      Inl (new_Error (js ''Anthropic API error: '' @
        js ''Invalid transcript: must be a non-empty string of at least 10 characters.'')))"
  by (simp add: analyzeMeeting_def analyzeMeeting_try_def new_Error_def)

text \<open>
  C4, as the code has it. A text whose trimmed length is below 10, so every text of
  fewer than 10 code units, makes \<open>analyzeMeeting\<close> throw its error before any request
  to the model: the only event is the log line of the \<open>catch\<close>.
\<close>

theorem analyzeMeeting_rejects_short:
  assumes "length text < 10 \<or> length (trim text) < 10"
  shows "analyzeMeeting json_parse llm text =
     ([Log ''Anthropic API call failed:''],
      Inl (new_Error (js ''Anthropic API error: '' @
        js ''Invalid transcript: must be a non-empty string of at least 10 characters.'')))"
proof -
  have "length (trim text) \<le> length text" by (rule length_trim_le)
  with assms have "length (trim text) < 10" by auto
  then show ?thesis by (rule analyzeMeeting_short)
qed

theorem analyzeMeeting_rejects_short_witness:
  "length (js ''too short'') < 10
   \<and> analyzeMeeting sample_parse api_down (js ''too short'') =
     ([Log ''Anthropic API call failed:''],
      Inl (new_Error (js ''Anthropic API error: '' @
        js ''Invalid transcript: must be a non-empty string of at least 10 characters.'')))"
proof -
  have l: "length (js ''too short'') < 10" by (simp add: js_def)
  from analyzeMeeting_rejects_short [of "js ''too short''" sample_parse api_down] l
  show ?thesis by simp
qed

text \<open>
  The upper bound is not tested again: a text of 5001 code units goes to the model.
\<close>

theorem analyzeMeeting_long_counterexample:
  "length long_text > 5000
   \<and> analyzeMeeting sample_parse api_down long_text =
       ([ApiCall (request_for long_text), Log ''Anthropic API call failed:''],
        Inl (new_Error (js ''Anthropic API error: '' @ js ''Connection error.'')))"
proof -
  have w: "\<not> is_ws (0x61 :: code_unit)" by (simp add: is_ws_def)
  have "trim long_text = long_text"
    unfolding long_text_def by (rule trim_id) (simp_all add: w)
  then have "\<not> length (trim long_text) < 10" "long_text \<noteq> []"
    by (simp_all add: long_text_def)
  then show ?thesis
    by (simp add: analyzeMeeting_def analyzeMeeting_try_def api_down_def new_Error_def
        long_text_def)
qed

section \<open>Analyze: when the requester fails\<close>

lemma analyzeMeeting_error_form:
  assumes "analyzeMeeting json_parse llm text = (evs, Inl err)"
  shows "\<exists>m. err = new_Error (js ''Anthropic API error: '' @ m)"
  using assms
  by (auto simp add: analyzeMeeting_def split: prod.splits sum.splits)

lemma parse_checked_events:
  "parse_checked json_parse s = (evs, r) \<Longrightarrow> DbCreate tx a b c \<notin> set evs"
  by (auto simp add: parse_checked_def split: option.splits if_splits)

lemma extract_json_events:
  "extract_json json_parse raw = (evs, r) \<Longrightarrow> DbCreate tx a b c \<notin> set evs"
  by (auto simp add: extract_json_def Let_def split: option.splits
      dest: parse_checked_events)

lemma analyzeMeeting_try_events:
  "analyzeMeeting_try json_parse llm s = (evs, r) \<Longrightarrow> DbCreate tx a b c \<notin> set evs"
  by (auto simp add: analyzeMeeting_try_def
      split: api_outcome.splits option.splits prod.splits if_splits
      dest: extract_json_events)

lemma analyzeMeeting_events:
  "analyzeMeeting json_parse llm s = (evs, r) \<Longrightarrow> DbCreate tx a b c \<notin> set evs"
  by (auto simp add: analyzeMeeting_def split: prod.splits sum.splits
      dest: analyzeMeeting_try_events)

text \<open>
  C3. Let the body carry a transcript of 10 to 5000 code units and let
  \<open>analyzeMeeting\<close> fail on it. Then the store is left as it was, the run has no create
  event and the status is not 200. When the handler makes the call (its trim test
  passes), the response is 500 with \<open>AI analysis failed.\<close> and, as details, the
  message of the error, which starts with \<open>Anthropic API error: \<close>.
\<close>

theorem analyze_model_failure:
  assumes "map_of kvs (js ''transcript'') = Some (JStr t)"
    and "10 \<le> length t" and "length t \<le> 5000"
    and "analyzeMeeting json_parse llm t = (evs, Inl err)"
  shows "store_after (handler_analyze json_parse llm env st ''POST'' (Some (JObj kvs))) = st
    \<and> status (handler_analyze json_parse llm env st ''POST'' (Some (JObj kvs))) \<noteq> 200
    \<and> (\<forall>tx a b c. DbCreate tx a b c \<notin>
          set (events (handler_analyze json_parse llm env st ''POST'' (Some (JObj kvs)))))
    \<and> (10 \<le> length (trim t) \<longrightarrow>
          status (handler_analyze json_parse llm env st ''POST'' (Some (JObj kvs))) = 500
        \<and> (\<exists>m. err = new_Error (js ''Anthropic API error: '' @ m)
              \<and> body (handler_analyze json_parse llm env st ''POST'' (Some (JObj kvs))) =
                  ErrorBody ''AI analysis failed.''
                    (Some (Text (js ''Anthropic API error: '' @ m))))
        \<and> events (handler_analyze json_parse llm env st ''POST'' (Some (JObj kvs))) =
            evs @ [Log ''AI analysis failed:''])"
proof -
  let ?r = "handler_analyze json_parse llm env st ''POST'' (Some (JObj kvs))"
  from assms(4) obtain m where m: "err = new_Error (js ''Anthropic API error: '' @ m)"
    using analyzeMeeting_error_form by blast
  have nocreate: "\<And>tx a b c. DbCreate tx a b c \<notin> set evs"
    using assms(4) by (rule analyzeMeeting_events)
  show ?thesis
  proof (cases "length (trim t) < 10")
    case True
    with assms(1-3) show ?thesis
      by (simp add: handler_analyze_def AnalyzeRequestSchema_safeParse_def respond_def)
  next
    case False
    with assms m nocreate show ?thesis
      by (simp add: handler_analyze_def AnalyzeRequestSchema_safeParse_def respond_def
          new_Error_def)
  qed
qed

theorem analyze_model_failure_witness:
  "10 \<le> length good_transcript \<and> length good_transcript \<le> 5000
   \<and> 10 \<le> length (trim good_transcript)
   \<and> snd (analyzeMeeting sample_parse api_down good_transcript) =
       Inl (new_Error (js ''Anthropic API error: '' @ js ''Connection error.''))
   \<and> status (handler_analyze sample_parse api_down quiet_env empty_store ''POST''
        (Some good_body)) = 500
   \<and> store_after (handler_analyze sample_parse api_down quiet_env empty_store ''POST''
        (Some good_body)) = empty_store"
proof -
  have l: "length good_transcript = 35"
    by (simp add: good_transcript_def js_def)
  have w: "\<not> is_ws (0x41 :: code_unit)" "\<not> is_ws (0x2E :: code_unit)"
    by (simp_all add: is_ws_def)
  have t: "trim good_transcript = good_transcript"
    by (rule trim_id) (simp_all add: good_transcript_def js_def w)
  have a: "analyzeMeeting sample_parse api_down good_transcript =
      ([ApiCall (request_for good_transcript), Log ''Anthropic API call failed:''],
       Inl (new_Error (js ''Anthropic API error: '' @ js ''Connection error.'')))"
    by (simp add: analyzeMeeting_def analyzeMeeting_try_def api_down_def new_Error_def t l)
       (simp add: good_transcript_def js_def)
  have m: "map_of [(js ''transcript'', JStr good_transcript)] (js ''transcript'')
             = Some (JStr good_transcript)"
    by simp
  from analyze_model_failure [OF m _ _ a, of quiet_env empty_store] l t a
  show ?thesis by (simp add: good_body_def)
qed

section \<open>The analysis requester: from the reply to the object\<close>

lemma star_then_close_None: "star_then_close s = None \<longleftrightarrow> rbrace \<notin> set s"
  by (induction s) (auto split: option.splits)

lemma star_then_close_last:
  "rbrace \<notin> set post \<Longrightarrow> star_then_close (mid @ rbrace # post) = Some (mid @ [rbrace])"
proof (induction mid)
  case Nil
  then have "star_then_close post = None" by (simp add: star_then_close_None)
  then show ?case by simp
next
  case (Cons c mid)
  then show ?case by simp
qed

lemma match_braces_skip: "lbrace \<notin> set pre \<Longrightarrow> match_braces (pre @ s) = match_braces s"
proof (induction pre)
  case Nil
  show ?case by simp
next
  case (Cons c pre)
  from Cons.prems have "c \<noteq> lbrace" and "lbrace \<notin> set pre" by auto
  with Cons.IH show ?case by simp
qed

lemma match_braces_first_last:
  assumes "lbrace \<notin> set pre" and "rbrace \<notin> set post"
  shows "match_braces (pre @ lbrace # mid @ rbrace # post) = Some (lbrace # mid @ [rbrace])"
proof -
  have "match_braces (lbrace # mid @ rbrace # post) = Some (lbrace # mid @ [rbrace])"
    using assms(2) by (simp add: star_then_close_last)
  with assms(1) show ?thesis by (simp add: match_braces_skip)
qed

lemma match_braces_Some_pair:
  "match_braces s = Some m \<Longrightarrow> \<exists>p x q. s = p @ lbrace # x @ rbrace # q"
proof (induction s)
  case Nil
  then show ?case by simp
next
  case (Cons c cs)
  show ?case
  proof (cases "match_at (c # cs)")
    case None
    with Cons.prems have "match_braces cs = Some m" by simp
    with Cons.IH obtain p x q where "cs = p @ lbrace # x @ rbrace # q" by blast
    then have "c # cs = (c # p) @ lbrace # x @ rbrace # q" by simp
    then show ?thesis by blast
  next
    case (Some m')
    then have c: "c = lbrace" and "star_then_close cs \<noteq> None"
      by (auto split: if_splits)
    then have "rbrace \<in> set cs" by (simp add: star_then_close_None)
    then obtain x q where "cs = x @ rbrace # q" by (auto dest: split_list)
    with c have "c # cs = [] @ lbrace # x @ rbrace # q" by simp
    then show ?thesis by blast
  qed
qed

lemma match_braces_pair_Some:
  "match_braces (p @ lbrace # x @ rbrace # q) \<noteq> None"
proof (induction p)
  case Nil
  have "star_then_close (x @ rbrace # q) \<noteq> None" by (simp add: star_then_close_None)
  then show ?case by auto
next
  case (Cons c p)
  then show ?case by (auto split: option.splits)
qed

lemma trim_infix: "\<exists>a b. s = a @ trim s @ b"
proof -
  let ?d = "dropWhile is_ws s"
  have 1: "s = takeWhile is_ws s @ ?d" by simp
  have "rev (rev ?d) = rev (takeWhile is_ws (rev ?d) @ dropWhile is_ws (rev ?d))"
    by (simp only: takeWhile_dropWhile_id)
  also have "\<dots> = rev (dropWhile is_ws (rev ?d)) @ rev (takeWhile is_ws (rev ?d))"
    by (simp only: rev_append)
  finally have 2: "?d = trim s @ rev (takeWhile is_ws (rev ?d))"
    by (simp only: rev_rev_ident trim_def)
  have "s = takeWhile is_ws s @ trim s @ rev (takeWhile is_ws (rev ?d))"
    using 1 2 by metis
  then show ?thesis by blast
qed

lemma trim_around:
  assumes "\<not> is_ws x" and "\<not> is_ws y"
  shows "trim (pre @ x # mid @ y # post) =
           dropWhile is_ws pre @ x # mid @ y # rev (dropWhile is_ws (rev post))"
proof -
  have 1: "dropWhile is_ws (pre @ x # mid @ y # post) = dropWhile is_ws pre @ x # mid @ y # post"
    using assms(1) by (rule dropWhile_append3)
  have 2: "rev (dropWhile is_ws pre @ x # mid @ y # post)
          = rev post @ y # (rev mid @ x # rev (dropWhile is_ws pre))"
    by simp
  have 3: "dropWhile is_ws (rev post @ y # (rev mid @ x # rev (dropWhile is_ws pre)))
          = dropWhile is_ws (rev post) @ y # (rev mid @ x # rev (dropWhile is_ws pre))"
    using assms(2) by (rule dropWhile_append3)
  have "trim (pre @ x # mid @ y # post)
          = rev (dropWhile is_ws (rev post) @ y # (rev mid @ x # rev (dropWhile is_ws pre)))"
    unfolding trim_def 1 2 3 ..
  then show ?thesis by simp
qed

lemma brace_not_ws: "\<not> is_ws lbrace" "\<not> is_ws rbrace"
  by (simp_all add: is_ws_def lbrace_def rbrace_def)

lemma match_braces_trim:
  assumes "lbrace \<notin> set pre" and "rbrace \<notin> set post"
  shows "match_braces (trim (pre @ lbrace # mid @ rbrace # post)) = Some (lbrace # mid @ [rbrace])"
proof -
  have a: "lbrace \<notin> set (dropWhile is_ws pre)"
    using assms(1) by (auto dest: set_dropWhileD)
  have b: "rbrace \<notin> set (rev (dropWhile is_ws (rev post)))"
    using assms(2) by (auto dest: set_dropWhileD)
  show ?thesis
    unfolding trim_around [OF brace_not_ws]
    using a b by (rule match_braces_first_last)
qed

lemma match_braces_trim_None:
  assumes "\<nexists>p x q. raw = p @ lbrace # x @ rbrace # q"
  shows "match_braces (trim raw) = None"
proof (rule ccontr)
  assume "match_braces (trim raw) \<noteq> None"
  then obtain m where "match_braces (trim raw) = Some m" by auto
  then obtain p x q where t: "trim raw = p @ lbrace # x @ rbrace # q"
    using match_braces_Some_pair by blast
  obtain a b where "raw = a @ trim raw @ b" using trim_infix by blast
  with t have "raw = (a @ p) @ lbrace # x @ rbrace # (q @ b)" by simp
  with assms show False by blast
qed

lemma remove_all_absent:
  "pat \<noteq> [] \<Longrightarrow> hd pat \<notin> set s \<Longrightarrow> remove_all pat s = s"
proof (induction s)
  case Nil
  show ?case by (subst remove_all.simps) simp
next
  case (Cons c cs)
  from Cons.prems have "take (length pat) (c # cs) \<noteq> pat"
    by (cases pat) auto
  moreover from Cons have "remove_all pat cs = cs" by simp
  ultimately show ?case by (subst remove_all.simps) simp
qed

lemma strip_fences_id:
  assumes "backtick \<notin> set mid"
  shows "strip_fences (lbrace # mid @ [rbrace]) = lbrace # mid @ [rbrace]"
proof -
  have b: "backtick \<notin> set (lbrace # mid @ [rbrace])"
    using assms by (simp add: backtick_def lbrace_def rbrace_def)
  have f: "fence \<noteq> []" "hd fence = backtick" "fence_json \<noteq> []" "hd fence_json = backtick"
    by (simp_all add: fence_def fence_json_def js_def backtick_def)
  have "remove_all fence_json (lbrace # mid @ [rbrace]) = lbrace # mid @ [rbrace]"
    using f b by (simp add: remove_all_absent)
  moreover have "remove_all fence (lbrace # mid @ [rbrace]) = lbrace # mid @ [rbrace]"
    using f b by (simp add: remove_all_absent)
  moreover have "trim (lbrace # mid @ [rbrace]) = lbrace # mid @ [rbrace]"
    by (rule trim_id) (simp_all add: brace_not_ws)
  ultimately show ?thesis by (simp add: strip_fences_def)
qed

lemma extract_json_embedded:
  assumes "lbrace \<notin> set pre" and "rbrace \<notin> set post"
  shows "extract_json json_parse (pre @ lbrace # mid @ rbrace # post) =
           parse_checked json_parse (strip_fences (lbrace # mid @ [rbrace]))"
  by (simp add: extract_json_def Let_def match_braces_trim [OF assms])

lemma extract_json_no_pair:
  assumes "\<nexists>p x q. raw = p @ lbrace # x @ rbrace # q"
  shows "extract_json json_parse raw =
           ([Log ''Claude returned non-JSON response:''],
            Inl (new_Error (js ''Claude returned invalid JSON format.'')))"
  by (simp add: extract_json_def Let_def match_braces_trim_None [OF assms])

lemma analyzeMeeting_reply:
  assumes "10 \<le> length (trim s)"
    and "llm (request_for s) = ApiReturns content"
    and "find is_text content = Some (TextBlock raw)"
    and "extract_json json_parse raw = (evs, r)"
  shows "analyzeMeeting_try json_parse llm s = (ApiCall (request_for s) # evs, r)"
proof -
  from assms(1) have "s \<noteq> []" by (auto simp add: trim_Nil)
  with assms show ?thesis by (simp add: analyzeMeeting_try_def)
qed

lemma good_transcript_trim: "trim good_transcript = good_transcript"
proof -
  have "\<not> is_ws (0x41 :: code_unit)" "\<not> is_ws (0x2E :: code_unit)"
    by (simp_all add: is_ws_def)
  then show ?thesis
    by (intro trim_id) (simp_all add: good_transcript_def js_def)
qed

lemma good_transcript_length: "length good_transcript = 35"
  by (simp add: good_transcript_def js_def)

lemma good_transcript_ok: "10 \<le> length (trim good_transcript)"
  by (simp add: good_transcript_trim good_transcript_length)

lemma sample_object_text_braces: "sample_object_text = lbrace # sample_inner @ [rbrace]"
  by (simp add: sample_object_text_def sample_inner_def js_def lbrace_def rbrace_def)

lemma sample_inner_plain: "backtick \<notin> set sample_inner"
  by (simp add: sample_inner_def js_def backtick_def)

lemma sample_object_shape: "shape_ok sample_object"
  by (simp add: shape_ok_def sample_object_def isArray_prop_def isString_prop_def js_def)

lemma sample_parse_stripped:
  "sample_parse (strip_fences (lbrace # sample_inner @ [rbrace])) = Some sample_object"
  by (simp add: strip_fences_id [OF sample_inner_plain] sample_parse_def
      sample_object_text_braces)

text \<open>
  C2, as the code has it. Let the first text block of the reply be \<open>raw\<close>. If \<open>raw\<close> is
  some text without \<open>{\<close>, then \<open>{\<close>, a middle part, \<open>}\<close>, then some text without
  \<open>}\<close>, the match on the trimmed reply is exactly the part from that first \<open>{\<close> to that
  last \<open>}\<close>; removing the fence markers leaves it as it is when it has no backtick;
  and when what is left parses to a value of the required shape, \<open>analyzeMeeting\<close>
  returns that value. If \<open>raw\<close> has no \<open>{\<close> with a \<open>}\<close> after it, \<open>analyzeMeeting\<close>
  throws \<open>Claude returned invalid JSON format.\<close> under its prefix.
\<close>

theorem extraction_first_to_last:
  assumes "10 \<le> length (trim s)"
    and "llm (request_for s) = ApiReturns content"
    and "find is_text content = Some (TextBlock raw)"
  shows "(\<forall>pre mid post.
            raw = pre @ lbrace # mid @ rbrace # post \<and> lbrace \<notin> set pre \<and> rbrace \<notin> set post \<longrightarrow>
              match_braces (trim raw) = Some (lbrace # mid @ [rbrace])
            \<and> (backtick \<notin> set mid \<longrightarrow>
                 strip_fences (lbrace # mid @ [rbrace]) = lbrace # mid @ [rbrace])
            \<and> (\<forall>v. json_parse (strip_fences (lbrace # mid @ [rbrace])) = Some v \<and> shape_ok v \<longrightarrow>
                 analyzeMeeting json_parse llm s = ([ApiCall (request_for s)], Inr v)))
       \<and> ((\<nexists>p x q. raw = p @ lbrace # x @ rbrace # q) \<longrightarrow>
            analyzeMeeting json_parse llm s =
              ([ApiCall (request_for s), Log ''Claude returned non-JSON response:'',
                Log ''Anthropic API call failed:''],
               Inl (new_Error (js ''Anthropic API error: '' @
                      js ''Claude returned invalid JSON format.''))))"
proof (intro conjI allI impI)
  fix pre mid post
  assume h: "raw = pre @ lbrace # mid @ rbrace # post \<and> lbrace \<notin> set pre \<and> rbrace \<notin> set post"
  then show "match_braces (trim raw) = Some (lbrace # mid @ [rbrace])"
    by (simp add: match_braces_trim)
next
  fix pre mid post
  assume "backtick \<notin> set mid"
  then show "strip_fences (lbrace # mid @ [rbrace]) = lbrace # mid @ [rbrace]"
    by (rule strip_fences_id)
next
  fix pre mid post v
  assume h: "raw = pre @ lbrace # mid @ rbrace # post \<and> lbrace \<notin> set pre \<and> rbrace \<notin> set post"
    and v: "json_parse (strip_fences (lbrace # mid @ [rbrace])) = Some v \<and> shape_ok v"
  from h have "extract_json json_parse raw =
      parse_checked json_parse (strip_fences (lbrace # mid @ [rbrace]))"
    by (simp add: extract_json_embedded)
  with v have "extract_json json_parse raw = ([], Inr v)"
    by (simp add: parse_checked_def)
  with assms have "analyzeMeeting_try json_parse llm s = ([ApiCall (request_for s)], Inr v)"
    by (rule analyzeMeeting_reply)
  then show "analyzeMeeting json_parse llm s = ([ApiCall (request_for s)], Inr v)"
    by (simp add: analyzeMeeting_def)
next
  assume "\<nexists>p x q. raw = p @ lbrace # x @ rbrace # q"
  then have "extract_json json_parse raw =
      ([Log ''Claude returned non-JSON response:''],
       Inl (new_Error (js ''Claude returned invalid JSON format.'')))"
    by (rule extract_json_no_pair)
  with assms have "analyzeMeeting_try json_parse llm s =
      ([ApiCall (request_for s), Log ''Claude returned non-JSON response:''],
       Inl (new_Error (js ''Claude returned invalid JSON format.'')))"
    by (rule analyzeMeeting_reply)
  then show "analyzeMeeting json_parse llm s =
      ([ApiCall (request_for s), Log ''Claude returned non-JSON response:'',
        Log ''Anthropic API call failed:''],
       Inl (new_Error (js ''Anthropic API error: '' @
              js ''Claude returned invalid JSON format.'')))"
    by (simp add: analyzeMeeting_def new_Error_def)
qed

theorem extraction_first_to_last_witness:
  "10 \<le> length (trim good_transcript)
   \<and> analyzeMeeting sample_parse api_fenced good_transcript =
       ([ApiCall (request_for good_transcript)], Inr sample_object)
   \<and> analyzeMeeting sample_parse api_plain good_transcript =
       ([ApiCall (request_for good_transcript), Log ''Claude returned non-JSON response:'',
         Log ''Anthropic API call failed:''],
        Inl (new_Error (js ''Anthropic API error: '' @
               js ''Claude returned invalid JSON format.'')))"
proof -
  let ?pre = "js ''Here it is: ```json\<newline>''" and ?post = "js ''\<newline>```''"
  have raw: "fenced_reply = ?pre @ lbrace # sample_inner @ rbrace # ?post"
    by (simp add: fenced_reply_def sample_object_text_braces)
  have pre: "lbrace \<notin> set ?pre" and post: "rbrace \<notin> set ?post"
    by (simp_all add: js_def lbrace_def rbrace_def)
  have f: "find is_text [OtherBlock, TextBlock fenced_reply] = Some (TextBlock fenced_reply)"
    by simp
  have a: "api_fenced (request_for good_transcript) = ApiReturns [OtherBlock, TextBlock fenced_reply]"
    by (simp add: api_fenced_def)
  have nopair: "\<nexists>p x q. plain_reply = p @ lbrace # x @ rbrace # q"
  proof
    assume "\<exists>p x q. plain_reply = p @ lbrace # x @ rbrace # q"
    then have "lbrace \<in> set plain_reply" by (metis in_set_conv_decomp)
    then show False by (simp add: plain_reply_def js_def lbrace_def)
  qed
  have g: "find is_text [TextBlock plain_reply] = Some (TextBlock plain_reply)"
    by simp
  have b: "api_plain (request_for good_transcript) = ApiReturns [TextBlock plain_reply]"
    by (simp add: api_plain_def)
  from extraction_first_to_last
      [where llm = api_fenced and s = good_transcript and json_parse = sample_parse,
       OF good_transcript_ok a f]
    raw pre post sample_parse_stripped sample_object_shape
  have 1: "analyzeMeeting sample_parse api_fenced good_transcript =
       ([ApiCall (request_for good_transcript)], Inr sample_object)"
    by blast
  from extraction_first_to_last
      [where llm = api_plain and s = good_transcript and json_parse = sample_parse,
       OF good_transcript_ok b g]
    nopair
  have 2: "analyzeMeeting sample_parse api_plain good_transcript =
       ([ApiCall (request_for good_transcript), Log ''Claude returned non-JSON response:'',
         Log ''Anthropic API call failed:''],
        Inl (new_Error (js ''Anthropic API error: '' @
               js ''Claude returned invalid JSON format.'')))"
    by blast
  from good_transcript_ok 1 2 show ?thesis by simp
qed

text \<open>
  A brace in the prose breaks the extraction: here the reply is one object of the
  required shape followed by a sentence with \<open>{owner}\<close> in it, the match runs to the
  brace of the sentence, and parsing fails.
\<close>

theorem extraction_brace_in_prose_counterexample:
  "chatty_reply = sample_object_text @ js '' Edit the {owner} fields as needed.''
   \<and> sample_parse sample_object_text = Some sample_object
   \<and> shape_ok sample_object
   \<and> analyzeMeeting sample_parse api_chatty good_transcript =
       ([ApiCall (request_for good_transcript), Log ''JSON parse error:'',
         Log ''Raw text from Claude:'', Log ''Anthropic API call failed:''],
        Inl (new_Error (js ''Anthropic API error: '' @
               js ''Failed to parse Claude response as valid JSON.'')))"
proof -
  let ?mid = "sample_inner @ rbrace # js '' Edit the {owner''"
  let ?post = "js '' fields as needed.''"
  have raw: "chatty_reply = [] @ lbrace # ?mid @ rbrace # ?post"
    by (simp add: chatty_reply_def sample_object_text_braces js_def rbrace_def)
  have post: "rbrace \<notin> set ?post"
    by (simp add: js_def rbrace_def)
  have plain: "backtick \<notin> set ?mid"
    by (simp add: sample_inner_def js_def backtick_def rbrace_def)
  have "extract_json sample_parse chatty_reply =
      parse_checked sample_parse (strip_fences (lbrace # ?mid @ [rbrace]))"
    unfolding raw by (rule extract_json_embedded) (simp_all add: post)
  also have "\<dots> = parse_checked sample_parse (lbrace # ?mid @ [rbrace])"
    by (simp only: strip_fences_id [OF plain])
  also have "\<dots> = ([Log ''JSON parse error:'', Log ''Raw text from Claude:''],
       Inl (new_Error (js ''Failed to parse Claude response as valid JSON.'')))"
    by (simp add: parse_checked_def sample_parse_def sample_object_text_braces)
  finally have e: "extract_json sample_parse chatty_reply =
      ([Log ''JSON parse error:'', Log ''Raw text from Claude:''],
       Inl (new_Error (js ''Failed to parse Claude response as valid JSON.'')))" .
  have f: "find is_text [TextBlock chatty_reply] = Some (TextBlock chatty_reply)"
    by simp
  have a: "api_chatty (request_for good_transcript) = ApiReturns [TextBlock chatty_reply]"
    by (simp add: api_chatty_def)
  from analyzeMeeting_reply
      [where llm = api_chatty and s = good_transcript, OF good_transcript_ok a f e]
  have "analyzeMeeting sample_parse api_chatty good_transcript =
       ([ApiCall (request_for good_transcript), Log ''JSON parse error:'',
         Log ''Raw text from Claude:'', Log ''Anthropic API call failed:''],
        Inl (new_Error (js ''Anthropic API error: '' @
               js ''Failed to parse Claude response as valid JSON.'')))"
    by (simp add: analyzeMeeting_def new_Error_def)
  then show ?thesis
    by (simp add: chatty_reply_def sample_parse_def sample_object_shape)
qed

section \<open>Delete and List\<close>

lemma trim_nonblank:
  assumes "\<exists>c \<in> set s. \<not> is_ws c"
  shows "trim s \<noteq> []"
proof -
  let ?d = "dropWhile is_ws s"
  from assms have ne: "?d \<noteq> []" by (simp add: dropWhile_eq_Nil_conv)
  then have "\<not> is_ws (hd ?d)" by (rule hd_dropWhile)
  moreover from ne have "hd ?d \<in> set (rev ?d)" by simp
  ultimately have "dropWhile is_ws (rev ?d) \<noteq> []"
    by (auto simp add: dropWhile_eq_Nil_conv)
  then show ?thesis by (simp add: trim_def)
qed

lemma nonblank_guard:
  "\<exists>c \<in> set i. \<not> is_ws c \<Longrightarrow> \<not> (i = [] \<or> length (trim i) = 0)"
  using trim_nonblank [of i] by auto

lemma delete_catch_status:
  "status (delete_catch err evs st) =
     (case code_in err of
        Some c \<Rightarrow> if c = js ''P2025'' then 404 else if c = js ''P1001'' then 503 else 500
      | None \<Rightarrow> 500)"
  by (simp add: delete_catch_def respond_def split: option.splits)

lemma delete_catch_store: "store_after (delete_catch err evs st) = st"
  by (simp add: delete_catch_def respond_def split: option.splits)

lemma delete_catch_not_200: "status (delete_catch err evs st) \<noteq> 200"
  by (simp add: delete_catch_status split: option.splits)

lemma find_absent: "\<forall>a \<in> set xs. a_id a \<noteq> i \<Longrightarrow> find (\<lambda>a. a_id a = i) xs = None"
  by (simp add: find_None_iff)

lemma find_present:
  "\<exists>a \<in> set xs. a_id a = i \<Longrightarrow> \<exists>a. find (\<lambda>a. a_id a = i) xs = Some a"
  by (cases "find (\<lambda>a. a_id a = i) xs") (auto simp add: find_None_iff)

text \<open>
  C6. A DELETE request with no id, or with an id of white space only (the empty string
  too), gets 400. With an id that has a character other than white space: if no
  Analysis has it, the response is never 200 and the store stays as it was, and it is
  404 with the not-found message when the lookup itself does not fail; if an Analysis
  has it and the store operations do not fail, the response is 200 with the
  confirmation and the store has lost exactly the Analysis rows of that id.
\<close>

theorem delete_outcomes:
  "(idq = QMissing \<or> (\<exists>w. idq = QString w \<and> (\<forall>c \<in> set w. is_ws c)) \<longrightarrow>
      status (handler_delete env st ''DELETE'' idq) = 400
    \<and> body (handler_delete env st ''DELETE'' idq) =
        ErrorBody ''Invalid or missing analysis ID.'' None
    \<and> store_after (handler_delete env st ''DELETE'' idq) = st)
   \<and> ((\<exists>c \<in> set i. \<not> is_ws c) \<and> (\<forall>a \<in> set (analyses st). a_id a \<noteq> i) \<longrightarrow>
      status (handler_delete env st ''DELETE'' (QString i)) \<noteq> 200
    \<and> store_after (handler_delete env st ''DELETE'' (QString i)) = st
    \<and> (fault env OpFindUnique = None \<longrightarrow>
         status (handler_delete env st ''DELETE'' (QString i)) = 404
       \<and> body (handler_delete env st ''DELETE'' (QString i)) =
           ErrorBody ''Analysis not found. It may have already been deleted.'' None))
   \<and> ((\<exists>c \<in> set i. \<not> is_ws c) \<and> (\<exists>a \<in> set (analyses st). a_id a = i)
       \<and> fault env OpFindUnique = None \<and> fault env OpDelete = None \<longrightarrow>
      status (handler_delete env st ''DELETE'' (QString i)) = 200
    \<and> body (handler_delete env st ''DELETE'' (QString i)) =
        MessageBody ''Analysis deleted successfully.''
    \<and> analyses (store_after (handler_delete env st ''DELETE'' (QString i))) =
        filter (\<lambda>a. a_id a \<noteq> i) (analyses st)
    \<and> transcripts (store_after (handler_delete env st ''DELETE'' (QString i))) =
        transcripts st)"
proof (intro conjI impI)
  assume h: "idq = QMissing \<or> (\<exists>w. idq = QString w \<and> (\<forall>c \<in> set w. is_ws c))"
  then have "idq = QMissing \<or> (\<exists>w. idq = QString w \<and> trim w = [])"
    by (auto simp add: trim_all_ws)
  then show "status (handler_delete env st ''DELETE'' idq) = 400"
    and "body (handler_delete env st ''DELETE'' idq) =
        ErrorBody ''Invalid or missing analysis ID.'' None"
    and "store_after (handler_delete env st ''DELETE'' idq) = st"
    by (auto simp add: handler_delete_def respond_def)
next
  assume h: "(\<exists>c \<in> set i. \<not> is_ws c) \<and> (\<forall>a \<in> set (analyses st). a_id a \<noteq> i)"
  then have g: "\<not> (i = [] \<or> length (trim i) = 0)" using nonblank_guard by blast
  from h have f: "find (\<lambda>a. a_id a = i) (analyses st) = None" by (simp add: find_absent)
  from g f show "status (handler_delete env st ''DELETE'' (QString i)) \<noteq> 200"
    by (simp add: handler_delete_def analysis_findUnique_def respond_def delete_catch_not_200
        split: option.splits)
  from g f show "store_after (handler_delete env st ''DELETE'' (QString i)) = st"
    by (simp add: handler_delete_def analysis_findUnique_def respond_def delete_catch_store
        split: option.splits)
  {
    assume "fault env OpFindUnique = None"
    with g f show "status (handler_delete env st ''DELETE'' (QString i)) = 404"
      and "body (handler_delete env st ''DELETE'' (QString i)) =
           ErrorBody ''Analysis not found. It may have already been deleted.'' None"
      by (simp_all add: handler_delete_def analysis_findUnique_def respond_def)
  }
next
  assume h: "(\<exists>c \<in> set i. \<not> is_ws c) \<and> (\<exists>a \<in> set (analyses st). a_id a = i)
       \<and> fault env OpFindUnique = None \<and> fault env OpDelete = None"
  then have g: "\<not> (i = [] \<or> length (trim i) = 0)" using nonblank_guard by blast
  from h obtain a where f: "find (\<lambda>a. a_id a = i) (analyses st) = Some a"
    using find_present by blast
  from h have d: "analysis_delete env st i =
      Inr (st\<lparr>analyses := filter (\<lambda>a. a_id a \<noteq> i) (analyses st)\<rparr>)"
    by (auto simp add: analysis_delete_def)
  from h g f d show "status (handler_delete env st ''DELETE'' (QString i)) = 200"
    and "body (handler_delete env st ''DELETE'' (QString i)) =
        MessageBody ''Analysis deleted successfully.''"
    and "analyses (store_after (handler_delete env st ''DELETE'' (QString i))) =
        filter (\<lambda>a. a_id a \<noteq> i) (analyses st)"
    and "transcripts (store_after (handler_delete env st ''DELETE'' (QString i))) =
        transcripts st"
    by (simp_all add: handler_delete_def analysis_findUnique_def respond_def)
qed

lemma two_store_ids:
  "\<forall>a \<in> set (analyses two_store). a_id a \<noteq> js ''zz''"
  "\<exists>a \<in> set (analyses two_store). a_id a = js ''a1''"
  "filter (\<lambda>a. a_id a \<noteq> js ''a1'') (analyses two_store) = [row_a2]"
  by (simp_all add: two_store_def row_a1_def row_a2_def js_def)

theorem delete_outcomes_witness:
  "status (handler_delete quiet_env two_store ''DELETE'' QMissing) = 400
   \<and> status (handler_delete quiet_env two_store ''DELETE'' (QString (js ''   ''))) = 400
   \<and> status (handler_delete quiet_env two_store ''DELETE'' (QString (js ''zz''))) = 404
   \<and> store_after (handler_delete quiet_env two_store ''DELETE'' (QString (js ''zz'')))
       = two_store
   \<and> status (handler_delete quiet_env two_store ''DELETE'' (QString (js ''a1''))) = 200
   \<and> analyses (store_after (handler_delete quiet_env two_store ''DELETE''
        (QString (js ''a1'')))) = [row_a2]
   \<and> transcripts (store_after (handler_delete quiet_env two_store ''DELETE''
        (QString (js ''a1'')))) = [row_t1, row_t2]"
proof -
  have blank: "\<forall>c \<in> set (js ''   ''). is_ws c"
    by (simp add: js_def is_ws_def)
  have zz: "\<exists>c \<in> set (js ''zz''). \<not> is_ws c" and a1: "\<exists>c \<in> set (js ''a1''). \<not> is_ws c"
    by (simp_all add: js_def is_ws_def)
  have q: "fault quiet_env OpFindUnique = None" "fault quiet_env OpDelete = None"
    by (simp_all add: quiet_env_def)
  have t: "transcripts two_store = [row_t1, row_t2]"
    by (simp add: two_store_def)
  from delete_outcomes [where idq = QMissing and env = quiet_env and st = two_store]
  have 1: "status (handler_delete quiet_env two_store ''DELETE'' QMissing) = 400"
    by simp
  from delete_outcomes
    [where idq = "QString (js ''   '')" and env = quiet_env and st = two_store] blank
  have 2: "status (handler_delete quiet_env two_store ''DELETE'' (QString (js ''   ''))) = 400"
    by simp
  from delete_outcomes [where i = "js ''zz''" and env = quiet_env and st = two_store]
    zz two_store_ids(1) q
  have 3: "status (handler_delete quiet_env two_store ''DELETE'' (QString (js ''zz''))) = 404
    \<and> store_after (handler_delete quiet_env two_store ''DELETE'' (QString (js ''zz'')))
       = two_store"
    by blast
  from delete_outcomes [where i = "js ''a1''" and env = quiet_env and st = two_store]
    a1 two_store_ids(2) q
  have 4: "status (handler_delete quiet_env two_store ''DELETE'' (QString (js ''a1''))) = 200
    \<and> analyses (store_after (handler_delete quiet_env two_store ''DELETE''
        (QString (js ''a1'')))) = filter (\<lambda>a. a_id a \<noteq> js ''a1'') (analyses two_store)
    \<and> transcripts (store_after (handler_delete quiet_env two_store ''DELETE''
        (QString (js ''a1'')))) = transcripts two_store"
    by blast
  from 1 2 3 4 show ?thesis by (simp add: two_store_ids(3) t)
qed

lemma findMany_rows:
  assumes "fault env OpFindMany = None"
  shows "\<exists>rows. analysis_findMany env st = Inr rows
    \<and> length rows = length (analyses st)
    \<and> mset (map fst rows) = mset (analyses st)
    \<and> sorted_wrt (\<lambda>x y. a_createdAt (fst y) \<le> a_createdAt (fst x)) rows
    \<and> (\<forall>r \<in> set rows. r = with_transcript st (fst r))"
proof -
  let ?k = "\<lambda>a. - int (a_createdAt a)"
  let ?xs = "sort_key ?k (analyses st)"
  let ?rows = "map (with_transcript st) ?xs"
  have f: "map fst ?rows = ?xs"
    by (simp add: with_transcript_def comp_def)
  have "sorted (map ?k ?xs)" by (rule sorted_sort_key)
  then have "sorted_wrt (\<lambda>x y. a_createdAt y \<le> a_createdAt x) ?xs"
    by (simp add: sorted_map)
  then have s: "sorted_wrt (\<lambda>x y. a_createdAt (fst y) \<le> a_createdAt (fst x)) ?rows"
    by (simp add: sorted_wrt_map with_transcript_def)
  have "analysis_findMany env st = Inr ?rows"
    using assms by (simp add: analysis_findMany_def)
  moreover have "length ?rows = length (analyses st)" by simp
  moreover have "mset (map fst ?rows) = mset (analyses st)"
    unfolding f by simp
  moreover have "\<forall>r \<in> set ?rows. r = with_transcript st (fst r)"
    by (auto simp add: with_transcript_def)
  ultimately show ?thesis using s by blast
qed

text \<open>
  C7. A GET on a store that answers: with at least one Analysis the response is 200
  and its body is the list of all Analysis rows, each with its Transcript, in
  descending order of creation time; with none the response is 404 with
  \<open>No analyses found.\<close>. The store is not changed.
\<close>

theorem fetch_outcomes:
  assumes "fault env OpFindMany = None"
  shows "(analyses st \<noteq> [] \<longrightarrow>
            status (handler_fetch env st ''GET'') = 200
          \<and> (\<exists>rows. body (handler_fetch env st ''GET'') = Analyses rows
               \<and> mset (map fst rows) = mset (analyses st)
               \<and> sorted_wrt (\<lambda>x y. a_createdAt (fst y) \<le> a_createdAt (fst x)) rows
               \<and> (\<forall>r \<in> set rows. r = with_transcript st (fst r))))
       \<and> (analyses st = [] \<longrightarrow>
            status (handler_fetch env st ''GET'') = 404
          \<and> body (handler_fetch env st ''GET'') = ErrorBody ''No analyses found.'' None)
       \<and> store_after (handler_fetch env st ''GET'') = st"
proof -
  from findMany_rows [OF assms, of st] obtain rows where
    r: "analysis_findMany env st = Inr rows"
    and l: "length rows = length (analyses st)"
    and m: "mset (map fst rows) = mset (analyses st)"
    and s: "sorted_wrt (\<lambda>x y. a_createdAt (fst y) \<le> a_createdAt (fst x)) rows"
    and w: "\<forall>r \<in> set rows. r = with_transcript st (fst r)"
    by blast
  have a: "analyses st \<noteq> [] \<longrightarrow>
            status (handler_fetch env st ''GET'') = 200
          \<and> (\<exists>rows. body (handler_fetch env st ''GET'') = Analyses rows
               \<and> mset (map fst rows) = mset (analyses st)
               \<and> sorted_wrt (\<lambda>x y. a_createdAt (fst y) \<le> a_createdAt (fst x)) rows
               \<and> (\<forall>r \<in> set rows. r = with_transcript st (fst r)))"
  proof
    assume "analyses st \<noteq> []"
    with l have "length rows \<noteq> 0" by simp
    with r have "status (handler_fetch env st ''GET'') = 200"
      and "body (handler_fetch env st ''GET'') = Analyses rows"
      by (simp_all add: handler_fetch_def respond_def)
    with m s w show "status (handler_fetch env st ''GET'') = 200
          \<and> (\<exists>rows. body (handler_fetch env st ''GET'') = Analyses rows
               \<and> mset (map fst rows) = mset (analyses st)
               \<and> sorted_wrt (\<lambda>x y. a_createdAt (fst y) \<le> a_createdAt (fst x)) rows
               \<and> (\<forall>r \<in> set rows. r = with_transcript st (fst r)))"
      by blast
  qed
  have b: "analyses st = [] \<longrightarrow>
            status (handler_fetch env st ''GET'') = 404
          \<and> body (handler_fetch env st ''GET'') = ErrorBody ''No analyses found.'' None"
    using r l by (simp add: handler_fetch_def respond_def)
  have c: "store_after (handler_fetch env st ''GET'') = st"
    using r by (simp add: handler_fetch_def respond_def)
  from a b c show ?thesis by blast
qed

theorem fetch_outcomes_witness:
  "status (handler_fetch quiet_env two_store ''GET'') = 200
   \<and> body (handler_fetch quiet_env two_store ''GET'') =
       Analyses [(row_a2, Some row_t2), (row_a1, Some row_t1)]
   \<and> status (handler_fetch quiet_env empty_store ''GET'') = 404"
proof -
  have q: "fault quiet_env OpFindMany = None"
    by (simp add: quiet_env_def)
  have ne: "analyses two_store \<noteq> []" and e: "analyses empty_store = []"
    by (simp_all add: two_store_def empty_store_def)
  have b: "body (handler_fetch quiet_env two_store ''GET'') =
       Analyses [(row_a2, Some row_t2), (row_a1, Some row_t1)]"
    by (simp add: handler_fetch_def analysis_findMany_def quiet_env_def two_store_def
        respond_def with_transcript_def row_a1_def row_a2_def row_t1_def row_t2_def js_def)
  from fetch_outcomes [OF q, of two_store] ne fetch_outcomes [OF q, of empty_store] e b
  show ?thesis by simp
qed

section \<open>Failures of the store\<close>

lemma parse_checked_shape: "parse_checked json_parse s = (evs, Inr v) \<Longrightarrow> shape_ok v"
  by (auto simp add: parse_checked_def split: option.splits if_splits)

lemma extract_json_shape: "extract_json json_parse raw = (evs, Inr v) \<Longrightarrow> shape_ok v"
  by (auto simp add: extract_json_def Let_def split: option.splits
      dest: parse_checked_shape)

lemma analyzeMeeting_try_shape:
  "analyzeMeeting_try json_parse llm s = (evs, Inr v) \<Longrightarrow> shape_ok v"
  by (auto simp add: analyzeMeeting_try_def
      split: api_outcome.splits option.splits prod.splits if_splits
      dest: extract_json_shape)

lemma analyzeMeeting_shape:
  "analyzeMeeting json_parse llm s = (evs, Inr v) \<Longrightarrow> shape_ok v"
  by (auto simp add: analyzeMeeting_def split: prod.splits sum.splits
      dest: analyzeMeeting_try_shape)

lemma shape_ok_format_ok: "shape_ok v \<Longrightarrow> format_ok v"
  by (simp add: shape_ok_def format_ok_def)

lemma analyze_reaches_save:
  assumes "map_of kvs (js ''transcript'') = Some (JStr t)"
    and "length t \<le> 5000" and "10 \<le> length (trim t)"
    and "analyzeMeeting json_parse llm t = (evs, Inr analysis)"
  shows "handler_analyze json_parse llm env st ''POST'' (Some (JObj kvs)) =
           save_analysis env st t evs analysis"
proof -
  have "length (trim t) \<le> length t" by (rule length_trim_le)
  with assms(3) have "10 \<le> length t" by simp
  with assms show ?thesis
    by (simp add: handler_analyze_def AnalyzeRequestSchema_safeParse_def)
qed

lemma save_analysis_fault:
  assumes "format_ok analysis" and "fault env OpCreate = Some err"
  shows "save_analysis env st t evs analysis =
     respond 500
       (ErrorBody ''Failed to save analysis results to database.''
          (Some (Text (message_or err (js ''Database error'')))))
       (evs @ [create_event t analysis, Log ''Database save failed:'']) st"
  using assms by (simp add: save_analysis_def transcript_create_def)

lemma fenced_run:
  "analyzeMeeting sample_parse api_fenced good_transcript =
     ([ApiCall (request_for good_transcript)], Inr sample_object)"
proof -
  let ?pre = "js ''Here it is: ```json\<newline>''" and ?post = "js ''\<newline>```''"
  have raw: "fenced_reply = ?pre @ lbrace # sample_inner @ rbrace # ?post"
    by (simp add: fenced_reply_def sample_object_text_braces)
  have pre: "lbrace \<notin> set ?pre" and post: "rbrace \<notin> set ?post"
    by (simp_all add: js_def lbrace_def rbrace_def)
  have "extract_json sample_parse fenced_reply =
      parse_checked sample_parse (strip_fences (lbrace # sample_inner @ [rbrace]))"
    unfolding raw using pre post by (rule extract_json_embedded)
  then have e: "extract_json sample_parse fenced_reply = ([], Inr sample_object)"
    by (simp add: parse_checked_def sample_parse_stripped sample_object_shape)
  have f: "find is_text [OtherBlock, TextBlock fenced_reply] = Some (TextBlock fenced_reply)"
    by simp
  have a: "api_fenced (request_for good_transcript) = ApiReturns [OtherBlock, TextBlock fenced_reply]"
    by (simp add: api_fenced_def)
  from analyzeMeeting_reply
      [where llm = api_fenced and s = good_transcript, OF good_transcript_ok a f e]
  show ?thesis by (simp add: analyzeMeeting_def)
qed

lemma good_body_transcript:
  "map_of [(js ''transcript'', JStr good_transcript)] (js ''transcript'')
     = Some (JStr good_transcript)"
  by simp

text \<open>
  C5, as the code has it. Delete maps an error of either store operation by its code:
  P2025 to 404, P1001 to 503, any other error to 500. List maps P1001 to 503 and
  every other error to 500. Analyze answers every error of the create with 500.
\<close>

theorem persistence_failure_statuses:
  "((\<exists>c \<in> set i. \<not> is_ws c) \<and> fault env OpFindUnique = Some err \<longrightarrow>
      status (handler_delete env st ''DELETE'' (QString i)) =
        (case code_in err of
           Some c \<Rightarrow> if c = js ''P2025'' then 404 else if c = js ''P1001'' then 503 else 500
         | None \<Rightarrow> 500))
   \<and> ((\<exists>c \<in> set i. \<not> is_ws c) \<and> fault env OpFindUnique = None
       \<and> (\<exists>a \<in> set (analyses st). a_id a = i) \<and> fault env OpDelete = Some err \<longrightarrow>
      status (handler_delete env st ''DELETE'' (QString i)) =
        (case code_in err of
           Some c \<Rightarrow> if c = js ''P2025'' then 404 else if c = js ''P1001'' then 503 else 500
         | None \<Rightarrow> 500))
   \<and> (fault env OpFindMany = Some err \<longrightarrow>
      status (handler_fetch env st ''GET'') =
        (if code_in err = Some (js ''P1001'') then 503 else 500))
   \<and> (map_of kvs (js ''transcript'') = Some (JStr t) \<and> length t \<le> 5000
       \<and> 10 \<le> length (trim t)
       \<and> analyzeMeeting json_parse llm t = (evs, Inr analysis)
       \<and> fault env OpCreate = Some err \<longrightarrow>
      status (handler_analyze json_parse llm env st ''POST'' (Some (JObj kvs))) = 500
    \<and> body (handler_analyze json_parse llm env st ''POST'' (Some (JObj kvs))) =
        ErrorBody ''Failed to save analysis results to database.''
          (Some (Text (message_or err (js ''Database error''))))
    \<and> store_after (handler_analyze json_parse llm env st ''POST'' (Some (JObj kvs))) = st)"
proof (intro conjI impI)
  assume h: "(\<exists>c \<in> set i. \<not> is_ws c) \<and> fault env OpFindUnique = Some err"
  then have g: "\<not> (i = [] \<or> length (trim i) = 0)" using nonblank_guard by blast
  with h show "status (handler_delete env st ''DELETE'' (QString i)) =
        (case code_in err of
           Some c \<Rightarrow> if c = js ''P2025'' then 404 else if c = js ''P1001'' then 503 else 500
         | None \<Rightarrow> 500)"
    by (simp add: handler_delete_def analysis_findUnique_def delete_catch_status)
next
  assume h: "(\<exists>c \<in> set i. \<not> is_ws c) \<and> fault env OpFindUnique = None
       \<and> (\<exists>a \<in> set (analyses st). a_id a = i) \<and> fault env OpDelete = Some err"
  then have g: "\<not> (i = [] \<or> length (trim i) = 0)" using nonblank_guard by blast
  from h obtain a where f: "find (\<lambda>a. a_id a = i) (analyses st) = Some a"
    using find_present by blast
  from h have d: "analysis_delete env st i = Inl err"
    by (simp add: analysis_delete_def)
  from h g f d show "status (handler_delete env st ''DELETE'' (QString i)) =
        (case code_in err of
           Some c \<Rightarrow> if c = js ''P2025'' then 404 else if c = js ''P1001'' then 503 else 500
         | None \<Rightarrow> 500)"
    by (simp add: handler_delete_def analysis_findUnique_def delete_catch_status)
next
  assume "fault env OpFindMany = Some err"
  then show "status (handler_fetch env st ''GET'') =
        (if code_in err = Some (js ''P1001'') then 503 else 500)"
    by (simp add: handler_fetch_def analysis_findMany_def fetch_catch_def respond_def)
next
  assume h: "map_of kvs (js ''transcript'') = Some (JStr t) \<and> length t \<le> 5000
       \<and> 10 \<le> length (trim t)
       \<and> analyzeMeeting json_parse llm t = (evs, Inr analysis)
       \<and> fault env OpCreate = Some err"
  then have "format_ok analysis"
    using analyzeMeeting_shape shape_ok_format_ok by blast
  with h have "handler_analyze json_parse llm env st ''POST'' (Some (JObj kvs)) =
     respond 500
       (ErrorBody ''Failed to save analysis results to database.''
          (Some (Text (message_or err (js ''Database error'')))))
       (evs @ [create_event t analysis, Log ''Database save failed:'']) st"
    by (simp add: analyze_reaches_save save_analysis_fault)
  then show "status (handler_analyze json_parse llm env st ''POST'' (Some (JObj kvs))) = 500"
    and "body (handler_analyze json_parse llm env st ''POST'' (Some (JObj kvs))) =
        ErrorBody ''Failed to save analysis results to database.''
          (Some (Text (message_or err (js ''Database error''))))"
    and "store_after (handler_analyze json_parse llm env st ''POST'' (Some (JObj kvs))) = st"
    by (simp_all add: respond_def)
qed

theorem persistence_failure_statuses_witness:
  "status (handler_delete unreachable_env two_store ''DELETE'' (QString (js ''a1''))) = 503
   \<and> status (handler_fetch unreachable_env two_store ''GET'') = 503
   \<and> status (handler_analyze sample_parse api_fenced unreachable_env two_store ''POST''
        (Some good_body)) = 500
   \<and> store_after (handler_analyze sample_parse api_fenced unreachable_env two_store ''POST''
        (Some good_body)) = two_store"
proof -
  have a1: "\<exists>c \<in> set (js ''a1''). \<not> is_ws c"
    by (simp add: js_def is_ws_def)
  have u: "fault unreachable_env OpFindUnique = Some connection_error"
    "fault unreachable_env OpFindMany = Some connection_error"
    "fault unreachable_env OpCreate = Some connection_error"
    by (simp_all add: unreachable_env_def)
  have c: "code_in connection_error = Some (js ''P1001'')"
    by (simp add: connection_error_def)
  have n: "js ''P1001'' \<noteq> js ''P2025''"
    by (simp add: js_def)
  have l: "length good_transcript \<le> 5000"
    by (simp add: good_transcript_length)
  from persistence_failure_statuses
    [where i = "js ''a1''" and env = unreachable_env and st = two_store
       and err = connection_error and kvs = "[(js ''transcript'', JStr good_transcript)]"
       and t = good_transcript and json_parse = sample_parse and llm = api_fenced
       and evs = "[ApiCall (request_for good_transcript)]" and analysis = sample_object]
    a1 u c n l good_transcript_ok fenced_run good_body_transcript
  show ?thesis by (simp add: good_body_def)
qed

text \<open>
  A create that fails with the connection code P1001 is answered by Analyze with 500,
  not with 503.
\<close>

theorem analyze_connection_failure_counterexample:
  "fault unreachable_env OpCreate = Some connection_error
   \<and> code_in connection_error = Some (js ''P1001'')
   \<and> status (handler_analyze sample_parse api_fenced unreachable_env empty_store ''POST''
        (Some good_body)) = 500"
proof -
  have u: "fault unreachable_env OpCreate = Some connection_error"
    by (simp add: unreachable_env_def)
  have l: "length good_transcript \<le> 5000"
    by (simp add: good_transcript_length)
  have "handler_analyze sample_parse api_fenced unreachable_env empty_store ''POST''
          (Some good_body) =
        save_analysis unreachable_env empty_store good_transcript
          [ApiCall (request_for good_transcript)] sample_object"
    unfolding good_body_def
    using good_body_transcript l good_transcript_ok fenced_run
    by (rule analyze_reaches_save)
  then have "status (handler_analyze sample_parse api_fenced unreachable_env empty_store
      ''POST'' (Some good_body)) = 500"
    by (simp add: save_analysis_fault [OF shape_ok_format_ok [OF sample_object_shape] u]
        respond_def)
  with u show ?thesis by (simp add: connection_error_def)
qed

section \<open>Analyze: the sentiment that is stored\<close>

lemma save_analysis_200:
  assumes "status (save_analysis env st tx evs analysis) = 200"
  shows "\<exists>t a. body (save_analysis env st tx evs analysis) = Saved t a
    \<and> t_text t = tx
    \<and> JStr (a_sentiment a) = sentiment_or_Unknown analysis
    \<and> analyses (store_after (save_analysis env st tx evs analysis)) = analyses st @ [a]
    \<and> transcripts (store_after (save_analysis env st tx evs analysis)) = transcripts st @ [t]"
  using assms
  by (auto simp add: save_analysis_def transcript_create_def respond_def Let_def
      split: if_splits option.splits json.splits)

lemma save_analysis_Unknown:
  assumes "format_ok analysis"
    and "get_prop analysis (js ''sentiment'') = None
         \<or> get_prop analysis (js ''sentiment'') = Some JNull"
    and "fault env OpCreate = None"
  shows "status (save_analysis env st tx evs analysis) = 200
    \<and> (\<exists>t a. body (save_analysis env st tx evs analysis) = Saved t a
          \<and> a_sentiment a = js ''Unknown''
          \<and> analyses (store_after (save_analysis env st tx evs analysis)) = analyses st @ [a]
          \<and> transcripts (store_after (save_analysis env st tx evs analysis)) =
              transcripts st @ [t])"
proof -
  from assms(2) have u: "sentiment_or_Unknown analysis = JStr (js ''Unknown'')"
    by (auto simp add: sentiment_or_Unknown_def)
  from assms(1) obtain x y where
    "get_prop analysis (js ''action_items'') = Some (JArr x)"
    "get_prop analysis (js ''decisions'') = Some (JArr y)"
    by (auto simp add: format_ok_def isArray_prop_def split: option.splits json.splits)
  with assms(1,3) u show ?thesis
    by (simp add: save_analysis_def transcript_create_def respond_def Let_def)
qed

lemma handler_analyze_200:
  assumes "status (handler_analyze json_parse llm env st ''POST'' req_body) = 200"
  shows "\<exists>t evs analysis.
           handler_analyze json_parse llm env st ''POST'' req_body =
             save_analysis env st t evs analysis
         \<and> analyzeMeeting json_parse llm t = (evs, Inr analysis)"
  using assms
  by (auto simp add: handler_analyze_def respond_def
      split: option.splits sum.splits prod.splits if_splits)

lemma shape_ok_sentiment:
  "shape_ok v \<Longrightarrow> \<exists>s. get_prop v (js ''sentiment'') = Some (JStr s)"
  by (auto simp add: shape_ok_def isString_prop_def split: option.splits json.splits)

lemma sentiment_key: "js ''sentiment'' \<noteq> js ''action_items''" "js ''sentiment'' \<noteq> js ''decisions''"
  by (simp_all add: js_def)

text \<open>
  C10. The handler's test of the analysis does not look at the sentiment: putting any
  value under that key leaves the test as it was. When the analysis passes the test
  and its sentiment is absent or \<open>null\<close>, the row that is stored has the sentiment
  \<open>Unknown\<close>. And whenever the handler answers 200, the stored row has the string that
  the value returned by \<open>analyzeMeeting\<close> has as its sentiment.
\<close>

theorem stored_sentiment_is_string:
  "format_ok (JObj ((js ''sentiment'', v) # kvs)) = format_ok (JObj kvs)
   \<and> (format_ok analysis
       \<and> (get_prop analysis (js ''sentiment'') = None
          \<or> get_prop analysis (js ''sentiment'') = Some JNull)
       \<and> fault env OpCreate = None \<longrightarrow>
        status (save_analysis env st tx evs analysis) = 200
      \<and> (\<exists>t a. body (save_analysis env st tx evs analysis) = Saved t a
            \<and> a_sentiment a = js ''Unknown''
            \<and> analyses (store_after (save_analysis env st tx evs analysis)) =
                analyses st @ [a]
            \<and> transcripts (store_after (save_analysis env st tx evs analysis)) =
                transcripts st @ [t]))
   \<and> (status (handler_analyze json_parse llm env st ''POST'' req_body) = 200 \<longrightarrow>
        (\<exists>t a es returned.
            body (handler_analyze json_parse llm env st ''POST'' req_body) = Saved t a
          \<and> analyses (store_after (handler_analyze json_parse llm env st ''POST'' req_body)) =
              analyses st @ [a]
          \<and> analyzeMeeting json_parse llm (t_text t) = (es, Inr returned)
          \<and> get_prop returned (js ''sentiment'') = Some (JStr (a_sentiment a))))"
proof (intro conjI impI)
  show "format_ok (JObj ((js ''sentiment'', v) # kvs)) = format_ok (JObj kvs)"
    using sentiment_key by (simp add: format_ok_def isArray_prop_def)
next
  assume "format_ok analysis
       \<and> (get_prop analysis (js ''sentiment'') = None
          \<or> get_prop analysis (js ''sentiment'') = Some JNull)
       \<and> fault env OpCreate = None"
  then have r: "status (save_analysis env st tx evs analysis) = 200
    \<and> (\<exists>t a. body (save_analysis env st tx evs analysis) = Saved t a
          \<and> a_sentiment a = js ''Unknown''
          \<and> analyses (store_after (save_analysis env st tx evs analysis)) = analyses st @ [a]
          \<and> transcripts (store_after (save_analysis env st tx evs analysis)) =
              transcripts st @ [t])"
    using save_analysis_Unknown by blast
  from r show "status (save_analysis env st tx evs analysis) = 200" by blast
  from r show "\<exists>t a. body (save_analysis env st tx evs analysis) = Saved t a
            \<and> a_sentiment a = js ''Unknown''
            \<and> analyses (store_after (save_analysis env st tx evs analysis)) =
                analyses st @ [a]
            \<and> transcripts (store_after (save_analysis env st tx evs analysis)) =
                transcripts st @ [t]" by blast
next
  assume ok: "status (handler_analyze json_parse llm env st ''POST'' req_body) = 200"
  then obtain t es returned where
    h: "handler_analyze json_parse llm env st ''POST'' req_body =
          save_analysis env st t es returned"
    and m: "analyzeMeeting json_parse llm t = (es, Inr returned)"
    using handler_analyze_200 by blast
  from m have "shape_ok returned" by (rule analyzeMeeting_shape)
  then obtain s where s: "get_prop returned (js ''sentiment'') = Some (JStr s)"
    using shape_ok_sentiment by blast
  then have u: "sentiment_or_Unknown returned = JStr s"
    by (simp add: sentiment_or_Unknown_def)
  from ok h have "status (save_analysis env st t es returned) = 200" by simp
  then obtain tr a where
    b: "body (save_analysis env st t es returned) = Saved tr a"
    and tx: "t_text tr = t"
    and se: "JStr (a_sentiment a) = sentiment_or_Unknown returned"
    and an: "analyses (store_after (save_analysis env st t es returned)) = analyses st @ [a]"
    using save_analysis_200 by blast
  from se u have "a_sentiment a = s" by simp
  with h b tx an m s
  show "\<exists>t a es returned.
            body (handler_analyze json_parse llm env st ''POST'' req_body) = Saved t a
          \<and> analyses (store_after (handler_analyze json_parse llm env st ''POST'' req_body)) =
              analyses st @ [a]
          \<and> analyzeMeeting json_parse llm (t_text t) = (es, Inr returned)
          \<and> get_prop returned (js ''sentiment'') = Some (JStr (a_sentiment a))"
    by auto
qed

lemma fenced_handler_run:
  "handler_analyze sample_parse api_fenced quiet_env empty_store ''POST'' (Some good_body) =
     respond 200
       (Saved \<lparr>t_id = js ''t9'', t_text = good_transcript, t_createdAt = 9\<rparr>
          \<lparr>a_id = js ''a9'', a_transcriptId = js ''t9'', a_actionItems = JArr [],
            a_decisions = JArr [], a_sentiment = js ''ok'', a_createdAt = 9\<rparr>)
       [ApiCall (request_for good_transcript),
        create_event good_transcript sample_object,
        Log ''Successfully saved transcript and analysis:'']
       \<lparr>transcripts = [\<lparr>t_id = js ''t9'', t_text = good_transcript, t_createdAt = 9\<rparr>],
         analyses = [\<lparr>a_id = js ''a9'', a_transcriptId = js ''t9'', a_actionItems = JArr [],
            a_decisions = JArr [], a_sentiment = js ''ok'', a_createdAt = 9\<rparr>]\<rparr>"
proof -
  have l: "length good_transcript \<le> 5000"
    by (simp add: good_transcript_length)
  have "handler_analyze sample_parse api_fenced quiet_env empty_store ''POST''
          (Some good_body) =
        save_analysis quiet_env empty_store good_transcript
          [ApiCall (request_for good_transcript)] sample_object"
    unfolding good_body_def
    using good_body_transcript l good_transcript_ok fenced_run
    by (rule analyze_reaches_save)
  moreover have "get_prop sample_object (js ''action_items'') = Some (JArr [])"
    "get_prop sample_object (js ''decisions'') = Some (JArr [])"
    "sentiment_or_Unknown sample_object = JStr (js ''ok'')"
    by (simp_all add: sample_object_def sentiment_or_Unknown_def js_def)
  ultimately show ?thesis
    using shape_ok_format_ok [OF sample_object_shape]
    by (simp add: save_analysis_def transcript_create_def quiet_env_def empty_store_def
        Let_def)
qed

theorem stored_sentiment_is_string_witness:
  "format_ok bare_object
   \<and> get_prop bare_object (js ''sentiment'') = None
   \<and> fault quiet_env OpCreate = None
   \<and> status (save_analysis quiet_env empty_store good_transcript [] bare_object) = 200
   \<and> (\<exists>t a. body (save_analysis quiet_env empty_store good_transcript [] bare_object)
               = Saved t a
          \<and> a_sentiment a = js ''Unknown'')
   \<and> status (handler_analyze sample_parse api_fenced quiet_env empty_store ''POST''
        (Some good_body)) = 200
   \<and> (\<exists>t a es returned.
          body (handler_analyze sample_parse api_fenced quiet_env empty_store ''POST''
            (Some good_body)) = Saved t a
        \<and> analyzeMeeting sample_parse api_fenced (t_text t) = (es, Inr returned)
        \<and> get_prop returned (js ''sentiment'') = Some (JStr (a_sentiment a)))"
proof -
  have f: "format_ok bare_object"
    by (simp add: bare_object_def format_ok_def isArray_prop_def js_def)
  have g: "get_prop bare_object (js ''sentiment'') = None"
    by (simp add: bare_object_def js_def)
  have q: "fault quiet_env OpCreate = None"
    by (simp add: quiet_env_def)
  have ok: "status (handler_analyze sample_parse api_fenced quiet_env empty_store ''POST''
        (Some good_body)) = 200"
    by (simp add: fenced_handler_run respond_def)
  from stored_sentiment_is_string
    [where analysis = bare_object and env = quiet_env and st = empty_store
       and tx = good_transcript and evs = "[]" and json_parse = sample_parse
       and llm = api_fenced and req_body = "Some good_body"]
    f g q ok
  show ?thesis by blast
qed

section \<open>The validators return\<close>

lemma those_map_Some: "those (map f xs) = Some ys \<Longrightarrow> map f xs = map Some ys"
  by (induction xs arbitrary: ys) (auto split: option.splits)

lemma as_string_Some: "as_string x = Some s \<Longrightarrow> x = Some (JStr s)"
  by (cases x rule: as_string.cases) simp_all

lemma those_strings:
  "those (map (\<lambda>x. as_string (Some x)) ds) = Some strs \<Longrightarrow> ds = map JStr strs"
proof (induction ds arbitrary: strs)
  case Nil
  then show ?case by simp
next
  case (Cons d ds)
  then show ?case
    by (auto split: option.splits dest: as_string_Some)
qed

lemma parse_all_Some:
  "parse_all f x = Some ys \<Longrightarrow> \<exists>items. x = Some (JArr items) \<and> those (map f items) = Some ys"
  by (cases "(f, x)" rule: parse_all.cases) simp_all

lemma AnalysisResultSchema_Some:
  assumes "AnalysisResultSchema_safeParse d = Some r"
  shows "\<exists>kvs items. d = Some (JObj kvs)
    \<and> map_of kvs (js ''action_items'') = Some (JArr items)
    \<and> map parse_action_item items = map Some (action_items r)
    \<and> map_of kvs (js ''decisions'') = Some (JArr (map JStr (decisions r)))
    \<and> map_of kvs (js ''sentiment'') = Some (JStr (sentiment r))"
proof -
  from assms obtain kvs ais ds se where d: "d = Some (JObj kvs)"
    and a: "parse_all parse_action_item (map_of kvs (js ''action_items'')) = Some ais"
    and b: "parse_all (\<lambda>x. as_string (Some x)) (map_of kvs (js ''decisions'')) = Some ds"
    and c: "as_string (map_of kvs (js ''sentiment'')) = Some se"
    and r: "r = \<lparr>action_items = ais, decisions = ds, sentiment = se\<rparr>"
    by (auto simp add: AnalysisResultSchema_safeParse_def
        split: option.splits json.splits)
  from a obtain items where i: "map_of kvs (js ''action_items'') = Some (JArr items)"
    and j: "those (map parse_action_item items) = Some ais"
    using parse_all_Some by blast
  from j have i': "map parse_action_item items = map Some ais"
    by (rule those_map_Some)
  from b obtain xs where x: "map_of kvs (js ''decisions'') = Some (JArr xs)"
    and y: "those (map (\<lambda>x. as_string (Some x)) xs) = Some ds"
    using parse_all_Some by blast
  from y have x': "xs = map JStr ds" by (rule those_strings)
  from c have c': "map_of kvs (js ''sentiment'') = Some (JStr se)"
    by (rule as_string_Some)
  from d i i' x x' c' r show ?thesis by simp
qed

lemma AnalyzeRequestSchema_Inr:
  "AnalyzeRequestSchema_safeParse b = Inr t \<Longrightarrow>
     get_prop b (js ''transcript'') = Some (JStr t) \<and> 10 \<le> length t \<and> length t \<le> 5000"
  by (auto simp add: AnalyzeRequestSchema_safeParse_def
      split: json.splits option.splits if_splits)

text \<open>
  C8. \<open>safeParseAnalysis\<close> returns on every input, \<open>undefined\<close> included: either the
  typed result, with no event, and then the input is an object whose three fields are
  the ones of the result; or \<open>null\<close>, with the one log line. The request schema returns
  on every value too: either the transcript, a string of 10 to 5000 code units that the
  body has under that key, or a failed result, which the handler answers with 400 and
  without any event or change of the store.
\<close>

theorem validators_return:
  "((\<exists>r kvs items. safeParseAnalysis d = ([], Inr (Some r))
        \<and> d = Some (JObj kvs)
        \<and> map_of kvs (js ''action_items'') = Some (JArr items)
        \<and> map parse_action_item items = map Some (action_items r)
        \<and> map_of kvs (js ''decisions'') = Some (JArr (map JStr (decisions r)))
        \<and> map_of kvs (js ''sentiment'') = Some (JStr (sentiment r)))
     \<or> safeParseAnalysis d = ([Log ''Invalid analysis structure:''], Inr None))
   \<and> ((\<exists>t. AnalyzeRequestSchema_safeParse b = Inr t
        \<and> get_prop b (js ''transcript'') = Some (JStr t)
        \<and> 10 \<le> length t \<and> length t \<le> 5000)
     \<or> (\<exists>flat. AnalyzeRequestSchema_safeParse b = Inl flat
        \<and> status (handler_analyze json_parse llm env st ''POST'' (Some b)) = 400
        \<and> events (handler_analyze json_parse llm env st ''POST'' (Some b)) = []
        \<and> store_after (handler_analyze json_parse llm env st ''POST'' (Some b)) = st))"
proof (rule conjI)
  show "(\<exists>r kvs items. safeParseAnalysis d = ([], Inr (Some r))
        \<and> d = Some (JObj kvs)
        \<and> map_of kvs (js ''action_items'') = Some (JArr items)
        \<and> map parse_action_item items = map Some (action_items r)
        \<and> map_of kvs (js ''decisions'') = Some (JArr (map JStr (decisions r)))
        \<and> map_of kvs (js ''sentiment'') = Some (JStr (sentiment r)))
     \<or> safeParseAnalysis d = ([Log ''Invalid analysis structure:''], Inr None)"
  proof (cases "AnalysisResultSchema_safeParse d")
    case None
    then show ?thesis by (simp add: safeParseAnalysis_def)
  next
    case (Some r)
    then have "safeParseAnalysis d = ([], Inr (Some r))"
      by (simp add: safeParseAnalysis_def)
    with AnalysisResultSchema_Some [OF Some] show ?thesis by blast
  qed
next
  show "(\<exists>t. AnalyzeRequestSchema_safeParse b = Inr t
        \<and> get_prop b (js ''transcript'') = Some (JStr t)
        \<and> 10 \<le> length t \<and> length t \<le> 5000)
     \<or> (\<exists>flat. AnalyzeRequestSchema_safeParse b = Inl flat
        \<and> status (handler_analyze json_parse llm env st ''POST'' (Some b)) = 400
        \<and> events (handler_analyze json_parse llm env st ''POST'' (Some b)) = []
        \<and> store_after (handler_analyze json_parse llm env st ''POST'' (Some b)) = st)"
  proof (cases "AnalyzeRequestSchema_safeParse b")
    case (Inr t)
    with AnalyzeRequestSchema_Inr [OF Inr] show ?thesis by blast
  next
    case (Inl flat)
    then have "status (handler_analyze json_parse llm env st ''POST'' (Some b)) = 400
        \<and> events (handler_analyze json_parse llm env st ''POST'' (Some b)) = []
        \<and> store_after (handler_analyze json_parse llm env st ''POST'' (Some b)) = st"
      by (simp add: handler_analyze_def respond_def)
    with Inl show ?thesis by blast
  qed
qed

theorem validators_return_witness:
  "safeParseAnalysis (Some rich_object) =
     ([], Inr (Some \<lparr>action_items =
                       [\<lparr>owner = js ''Bob'', task = js ''ship'', deadline = None\<rparr>],
                     decisions = [js ''ship by Friday''], sentiment = js ''positive''\<rparr>))
   \<and> safeParseAnalysis (Some (JNum 5)) = ([Log ''Invalid analysis structure:''], Inr None)
   \<and> safeParseAnalysis None = ([Log ''Invalid analysis structure:''], Inr None)
   \<and> status (handler_analyze sample_parse api_down quiet_env empty_store ''POST''
        (Some (JArr []))) = 400
   \<and> AnalyzeRequestSchema_safeParse good_body = Inr good_transcript"
proof -
  have 1: "safeParseAnalysis (Some rich_object) =
     ([], Inr (Some \<lparr>action_items =
                       [\<lparr>owner = js ''Bob'', task = js ''ship'', deadline = None\<rparr>],
                     decisions = [js ''ship by Friday''], sentiment = js ''positive''\<rparr>))"
    by (simp add: safeParseAnalysis_def AnalysisResultSchema_safeParse_def rich_object_def
        js_def)
  from validators_return [where d = "Some (JNum 5)" and b = "JArr []"
      and json_parse = sample_parse and llm = api_down and env = quiet_env
      and st = empty_store]
  have 2: "safeParseAnalysis (Some (JNum 5)) = ([Log ''Invalid analysis structure:''], Inr None)"
    and 4: "status (handler_analyze sample_parse api_down quiet_env empty_store ''POST''
        (Some (JArr []))) = 400"
    by (auto simp add: AnalyzeRequestSchema_safeParse_def)
  from validators_return [where d = None and b = good_body]
  have 3: "safeParseAnalysis None = ([Log ''Invalid analysis structure:''], Inr None)"
    by auto
  have l: "10 \<le> length good_transcript \<and> length good_transcript \<le> 5000"
    by (simp add: good_transcript_length)
  then have 5: "AnalyzeRequestSchema_safeParse good_body = Inr good_transcript"
    by (simp add: AnalyzeRequestSchema_safeParse_def good_body_def)
  from 1 2 3 4 5 show ?thesis by simp
qed

end
